theory Spec2Isabelle
  imports Complex_Main "HOL-Library.AList"
begin

section \<open>Python values\<close>

text \<open>
  The classifier takes a \<^verbatim>\<open>Dict[str, Any]\<close> that arrives as JSON, so its fields may hold
  any JSON value. A Python float is read as the rational it denotes, or as one of the three
  special values; the classifier only compares numbers and never computes with them, so
  this reading is exact. A dict is an association list (keys are looked up with
  \<^const>\<open>map_of\<close>).
\<close>

datatype pyfloat = Fin rat | PosInf | NegInf | NaN

datatype pyval =
    PNone
  | PBool bool
  | PInt int
  | PFloat pyfloat
  | PStr string
  | PList "pyval list"
  | PDict "(string \<times> pyval) list"

datatype error = AttributeError | TypeError | ValueError | OverflowError | OSError

text \<open>Truth value of an object, as \<^verbatim>\<open>x or {}\<close> tests it.\<close>

fun truthy :: "pyval \<Rightarrow> bool" where
  "truthy PNone = False"
| "truthy (PBool b) = b"
| "truthy (PInt i) = (i \<noteq> 0)"
| "truthy (PFloat f) = (f \<noteq> Fin 0)"
| "truthy (PStr s) = (s \<noteq> [])"
| "truthy (PList xs) = (xs \<noteq> [])"
| "truthy (PDict d) = (d \<noteq> [])"

text \<open>\<^verbatim>\<open>d.get(k)\<close> on a dict: the value, or None when the key is missing.\<close>

definition dict_get :: "(string \<times> pyval) list \<Rightarrow> string \<Rightarrow> pyval" where
  "dict_get d k = (case map_of d k of None \<Rightarrow> PNone | Some v \<Rightarrow> v)"

text \<open>\<^verbatim>\<open>event.get(k, {}) or {}\<close>: a missing or falsy entry becomes the empty dict.\<close>

definition get_section :: "(string \<times> pyval) list \<Rightarrow> string \<Rightarrow> pyval" where
  "get_section event k =
     (let v = (case map_of event k of None \<Rightarrow> PDict [] | Some v \<Rightarrow> v)
      in if truthy v then v else PDict [])"

text \<open>\<^verbatim>\<open>x.get(k)\<close> on an arbitrary object: only a dict has the method.\<close>

fun attr_get :: "pyval \<Rightarrow> string \<Rightarrow> error + pyval" where
  "attr_get (PDict d) k = Inr (dict_get d k)"
| "attr_get _ k = Inl AttributeError"

text \<open>
  Ordering comparisons against a float literal. bool, int and float are numbers (a bool
  counts as 0 or 1, an int is compared exactly); every other type raises TypeError.
  Any comparison with NaN is false.
\<close>

fun as_number :: "pyval \<Rightarrow> pyfloat option" where
  "as_number (PBool b) = Some (Fin (if b then 1 else 0))"
| "as_number (PInt i) = Some (Fin (of_int i))"
| "as_number (PFloat f) = Some f"
| "as_number _ = None"

fun float_lt :: "pyfloat \<Rightarrow> rat \<Rightarrow> bool" where
  "float_lt (Fin q) c = (q < c)"
| "float_lt NegInf c = True"
| "float_lt PosInf c = False"
| "float_lt NaN c = False"

fun float_gt :: "pyfloat \<Rightarrow> rat \<Rightarrow> bool" where
  "float_gt (Fin q) c = (q > c)"
| "float_gt NegInf c = False"
| "float_gt PosInf c = True"
| "float_gt NaN c = False"

definition py_lt :: "pyval \<Rightarrow> rat \<Rightarrow> error + bool" where
  "py_lt v c = (case as_number v of None \<Rightarrow> Inl TypeError | Some f \<Rightarrow> Inr (float_lt f c))"

definition py_gt :: "pyval \<Rightarrow> rat \<Rightarrow> error + bool" where
  "py_gt v c = (case as_number v of None \<Rightarrow> Inl TypeError | Some f \<Rightarrow> Inr (float_gt f c))"

text \<open>
  The float literals of the BER tiers are not decimal fractions in binary; these are the
  exact values of the doubles that \<^verbatim>\<open>1e-3\<close>, \<^verbatim>\<open>1e-4\<close> and \<^verbatim>\<open>1e-5\<close> denote.
\<close>

definition lit_1e_3 :: rat where
  "lit_1e_3 = 1152921504606847 / 1152921504606846976"

definition lit_1e_4 :: rat where
  "lit_1e_4 = 7378697629483821 / 73786976294838206464"

definition lit_1e_5 :: rat where
  "lit_1e_5 = 5902958103587057 / 590295810358705651712"

text \<open>\<^verbatim>\<open>str.lower()\<close> on the code points below 256.\<close>

definition lower_char :: "char \<Rightarrow> char" where
  "lower_char c =
     (let n = (of_char c :: nat)
      in if (65 \<le> n \<and> n \<le> 90) \<or> (192 \<le> n \<and> n \<le> 222 \<and> n \<noteq> 215)
         then char_of (n + 32) else c)"

definition py_lower :: "string \<Rightarrow> string" where
  "py_lower s = map lower_char s"

section \<open>Compliance classifier\<close>

text \<open>
  The local variables of \<^verbatim>\<open>check_ieee_8023_compliance\<close> that the rules update:
  \<^verbatim>\<open>likely_layer\<close>, \<^verbatim>\<open>severity\<close>, \<^verbatim>\<open>causes\<close>, \<^verbatim>\<open>actions\<close> and \<^verbatim>\<open>notes\<close>. The lists carry the
  names of the keys they are returned under (\<open>notes_out\<close> for \<^verbatim>\<open>notes\<close>, a reserved word here).
\<close>

record verdict =
  likely_layer :: string
  severity :: string
  probable_causes :: "string list"
  suggested_actions :: "string list"
  notes_out :: "string list"

record compliance_result = verdict +
  res_timestamp :: pyval
  res_olt_id :: pyval
  res_onu_id :: pyval
  is_abnormal :: bool
  health :: string

text \<open>
  An f-string field \<^verbatim>\<open>{v:spec}\<close> calls \<^verbatim>\<open>format(v, spec)\<close>. The digits it prints are a parameter
  \<open>fmt\<close> of the model. It is only reached with a number, and raises in two cases only:
  an int is converted to a float for the specs \<^verbatim>\<open>.2f\<close>, \<^verbatim>\<open>.2e\<close> and \<^verbatim>\<open>.1f\<close>, which overflows
  (OverflowError) from \<open>2^1024 - 2^970\<close> on, and an int of more than 4300 digits is not
  printed by the empty spec (ValueError).
\<close>

type_synonym formatter = "pyval \<Rightarrow> string \<Rightarrow> string"

definition float_overflow :: int where
  "float_overflow = 2 ^ 1024 - 2 ^ 970"

definition max_str_digits :: int where
  "max_str_digits = 10 ^ 4300"

definition format_value :: "formatter \<Rightarrow> pyval \<Rightarrow> string \<Rightarrow> error + string" where
  "format_value fmt v spec =
     (case v of
        PInt i \<Rightarrow>
          if spec = [] then (if \<bar>i\<bar> < max_str_digits then Inr (fmt v spec) else Inl ValueError)
          else (if \<bar>i\<bar> < float_overflow then Inr (fmt v spec) else Inl OverflowError)
      | _ \<Rightarrow> Inr (fmt v spec))"

definition ebind :: "error + 'a \<Rightarrow> ('a \<Rightarrow> error + 'b) \<Rightarrow> error + 'b" where
  "ebind m f = (case m of Inl e \<Rightarrow> Inl e | Inr x \<Rightarrow> f x)"

definition escalate_to_warning :: "verdict \<Rightarrow> verdict" where
  \<comment> \<open>\<^verbatim>\<open>if severity == "info": severity = "warning"\<close>\<close>
  "escalate_to_warning s = (if severity s = ''info'' then s\<lparr>severity := ''warning''\<rparr> else s)"

definition layer_if_unknown :: "verdict \<Rightarrow> verdict" where
  \<comment> \<open>\<^verbatim>\<open>if likely_layer == "Unknown": likely_layer = "PHY"\<close>\<close>
  "layer_if_unknown s =
     (if likely_layer s = ''Unknown'' then s\<lparr>likely_layer := ''PHY''\<rparr> else s)"

definition add_cause :: "string \<Rightarrow> verdict \<Rightarrow> verdict" where
  "add_cause c s = s\<lparr>probable_causes := probable_causes s @ [c]\<rparr>"

definition add_actions :: "string list \<Rightarrow> verdict \<Rightarrow> verdict" where
  "add_actions as s = s\<lparr>suggested_actions := suggested_actions s @ as\<rparr>"

definition add_note :: "string \<Rightarrow> verdict \<Rightarrow> verdict" where
  "add_note n s = s\<lparr>notes_out := notes_out s @ [n]\<rparr>"

text \<open>Rule 1: the QoT degradation flag (\<^verbatim>\<open>qot_degrade is True\<close>).\<close>

definition rule_qot_degrade :: "pyval \<Rightarrow> verdict \<Rightarrow> verdict" where
  "rule_qot_degrade qot_degrade s =
     (if qot_degrade = PBool True then
        add_note (''QoT degrade indicates optical signal margins falling outside '' @
                  ''normal operating envelope for EPON PHY optics.'')
        (add_actions [''Verify fiber continuity and connectors on the PON link.'',
                      ''Measure optical power with OPM or perform OTDR test.'',
                      ''Inspect splitter ports/splices for excessive loss.'']
        (add_cause ''QoT degradation reported by ONU.''
           (s\<lparr>likely_layer := ''PHY'', severity := ''critical''\<rparr>)))
      else s)"

text \<open>
  Rule 2: the received power window; the two tests are independent \<^verbatim>\<open>if\<close>s. In each
  branch the argument \<open>t\<close> is the formatted number of the cause text.
\<close>

definition rx_near :: "string \<Rightarrow> verdict \<Rightarrow> verdict" where
  "rx_near t s =
     add_note ''Receiver input is near sensitivity limit for common EPON ONU optics.''
     (add_actions [''Check passive plant for excessive insertion loss.'']
     (add_cause (''Low received optical power ('' @ t @ '' dBm).'')
     (escalate_to_warning (layer_if_unknown s))))"

definition rx_low :: "verdict \<Rightarrow> verdict" where
  "rx_low s =
     add_actions [''Urgently inspect fiber drop and connectors.'']
     (add_cause ''Received optical power beyond sensitivity threshold.''
     ((layer_if_unknown s)\<lparr>severity := ''critical''\<rparr>))"

definition rule_rx_power :: "formatter \<Rightarrow> pyval \<Rightarrow> verdict \<Rightarrow> error + verdict" where
  "rule_rx_power fmt rx s =
     (if rx = PNone then Inr s
      else
        ebind (py_lt rx (- 26.5)) (\<lambda>near.
        ebind (if near then ebind (format_value fmt rx ''.2f'') (\<lambda>t. Inr (rx_near t s))
               else Inr s) (\<lambda>s1.
        ebind (py_lt rx (- 28)) (\<lambda>low.
        Inr (if low then rx_low s1 else s1)))))"

text \<open>Rule 3: the pre-FEC BER tiers, an \<^verbatim>\<open>if\<close>/\<^verbatim>\<open>elif\<close>/\<^verbatim>\<open>elif\<close> chain.\<close>

definition ber_extreme :: "string \<Rightarrow> verdict \<Rightarrow> verdict" where
  "ber_extreme t s =
     add_actions [''Perform optical path inspection immediately.'',
                  ''Verify laser launch conditions and ONU optics health.'']
     (add_cause (''Pre-FEC BER '' @ t @ '' extremely high.'')
     (s\<lparr>likely_layer := ''PHY'', severity := ''critical''\<rparr>))"

definition ber_above :: "string \<Rightarrow> verdict \<Rightarrow> verdict" where
  "ber_above t s =
     add_actions [''Check clock recovery / dispersion on long-reach PON.'']
     (add_cause (''Pre-FEC BER '' @ t @ '' above nominal.'')
     (escalate_to_warning (layer_if_unknown s)))"

definition ber_slight :: "verdict \<Rightarrow> verdict" where
  "ber_slight s =
     add_actions [''Monitor BER trend over time.'']
     (add_cause ''Pre-FEC BER slightly elevated.''
     (escalate_to_warning (layer_if_unknown s)))"

definition rule_ber :: "formatter \<Rightarrow> pyval \<Rightarrow> verdict \<Rightarrow> error + verdict" where
  "rule_ber fmt ber_pre s =
     (if ber_pre = PNone then Inr s
      else
        ebind (py_gt ber_pre lit_1e_3) (\<lambda>extreme.
        if extreme then ebind (format_value fmt ber_pre ''.2e'') (\<lambda>t. Inr (ber_extreme t s))
        else
          ebind (py_gt ber_pre lit_1e_4) (\<lambda>above.
          if above then ebind (format_value fmt ber_pre ''.2e'') (\<lambda>t. Inr (ber_above t s))
          else
            ebind (py_gt ber_pre lit_1e_5) (\<lambda>slight.
            Inr (if slight then ber_slight s else s)))))"

text \<open>Rule 4: the SNR tiers; both set the layer unconditionally.\<close>

definition snr_critical :: "string \<Rightarrow> verdict \<Rightarrow> verdict" where
  "snr_critical t s =
     add_actions [''Investigate reflections, macro-bends, or noisy transmitters.'']
     (add_cause (''SNR critically low ('' @ t @ '' dB).'')
     (s\<lparr>likely_layer := ''PHY'', severity := ''critical''\<rparr>))"

definition snr_marginal :: "string \<Rightarrow> verdict \<Rightarrow> verdict" where
  "snr_marginal t s =
     add_actions [''Inspect connectors for contamination or micro-bends.'']
     (add_cause (''SNR marginal ('' @ t @ '' dB).'')
     ((escalate_to_warning s)\<lparr>likely_layer := ''PHY''\<rparr>))"

definition rule_snr :: "formatter \<Rightarrow> pyval \<Rightarrow> verdict \<Rightarrow> error + verdict" where
  "rule_snr fmt snr s =
     (if snr = PNone then Inr s
      else
        ebind (py_lt snr 12) (\<lambda>critical.
        if critical then ebind (format_value fmt snr ''.1f'') (\<lambda>t. Inr (snr_critical t s))
        else
          ebind (py_lt snr 15) (\<lambda>marginal.
          if marginal then ebind (format_value fmt snr ''.1f'') (\<lambda>t. Inr (snr_marginal t s))
          else Inr s)))"

text \<open>Rule 5: temperature (\<^verbatim>\<open>temp is not None and temp > 75\<close>).\<close>

definition temp_high :: "string \<Rightarrow> verdict \<Rightarrow> verdict" where
  "temp_high t s =
     add_actions [''Check ONU ambient conditions and ventilation.'']
     (add_cause (''High ONU temperature ('' @ t @ [char_of (176::nat)] @ ''C).'')
     (escalate_to_warning (s\<lparr>likely_layer := ''PHY''\<rparr>)))"

definition rule_temperature :: "formatter \<Rightarrow> pyval \<Rightarrow> verdict \<Rightarrow> error + verdict" where
  "rule_temperature fmt temp s =
     (if temp = PNone then Inr s
      else
        ebind (py_gt temp 75) (\<lambda>hot.
        if hot then ebind (format_value fmt temp []) (\<lambda>t. Inr (temp_high t s))
        else Inr s))"

text \<open>Rule 6: the DSP adaptation keywords, on the lower-cased state name.\<close>

definition normalize_dsp :: "pyval \<Rightarrow> string option" where
  \<comment> \<open>\<^verbatim>\<open>dsp_state.lower()\<close> if \<^verbatim>\<open>isinstance(dsp_state, str)\<close>, else None\<close>
  "normalize_dsp dsp_state = (case dsp_state of PStr t \<Rightarrow> Some (py_lower t) | _ \<Rightarrow> None)"

definition rule_dsp :: "string option \<Rightarrow> verdict \<Rightarrow> verdict" where
  "rule_dsp dsp_state_norm s =
     (if dsp_state_norm \<in> set [Some ''slow'', Some ''degraded'', Some ''tracking''] then
        add_note ''DSP struggling often correlates with low SNR or fluctuating power.''
        (add_actions [''Check for unstable optical power or high dispersion.'']
        (add_cause ''DSP adaptation struggling (slow/degraded).''
        (escalate_to_warning (s\<lparr>likely_layer := ''PHY''\<rparr>))))
      else s)"

text \<open>Rule 7 and the health mapping, then the returned dict.\<close>

definition finish :: "(string \<times> pyval) list \<Rightarrow> verdict \<Rightarrow> compliance_result" where
  "finish event s =
     (let abnormal = (probable_causes s \<noteq> []);
          s1 = (if \<not> abnormal then
                  add_note ''Event appears to be within normal IEEE 802.3 EPON operating range.''
                  (add_actions [''Continue monitoring.'']
                  (add_cause ''No abnormal conditions detected.'' s))
                else if severity s \<in> set [''info'', ''warning''] then
                  add_actions [''Continue monitoring link quality trends.''] s
                else s)
      in verdict.extend s1
           \<lparr> res_timestamp = dict_get event ''timestamp'',
             res_olt_id = dict_get event ''olt_id'',
             res_onu_id = dict_get event ''onu_id'',
             is_abnormal = abnormal,
             health = (if \<not> abnormal then ''normal''
                       else if severity s1 = ''critical'' then ''major_issue''
                       else ''minor_issue'') \<rparr>)"

definition initial_verdict :: verdict where
  "initial_verdict =
     \<lparr> likely_layer = ''Unknown'', severity = ''info'', probable_causes = [],
       suggested_actions = [], notes_out = [] \<rparr>"

text \<open>The rule ladder over the fields read from the two sections, in source order.\<close>

definition run_rules ::
  "formatter \<Rightarrow> pyval \<Rightarrow> pyval \<Rightarrow> pyval \<Rightarrow> pyval \<Rightarrow> pyval \<Rightarrow> pyval \<Rightarrow> error + verdict" where
  "run_rules fmt rx ber_pre snr temp qot_degrade dsp_state =
     ebind (rule_rx_power fmt rx (rule_qot_degrade qot_degrade initial_verdict)) (\<lambda>s2.
     ebind (rule_ber fmt ber_pre s2) (\<lambda>s3.
     ebind (rule_snr fmt snr s3) (\<lambda>s4.
     ebind (rule_temperature fmt temp s4) (\<lambda>s5.
     Inr (rule_dsp (normalize_dsp dsp_state) s5)))))"

text \<open>
  The seven \<^verbatim>\<open>.get\<close> calls come first: they raise AttributeError when a section is not
  a dict.
\<close>

definition check_ieee_8023_compliance ::
  "formatter \<Rightarrow> (string \<times> pyval) list \<Rightarrow> error + compliance_result" where
  "check_ieee_8023_compliance fmt event =
     (let qot = get_section event ''qot'';
          status = get_section event ''status''
      in ebind (attr_get qot ''rx_power_dBm'') (\<lambda>rx.
         ebind (attr_get qot ''ber_pre_fec'') (\<lambda>ber_pre.
         ebind (attr_get qot ''ber_post_fec'') (\<lambda>ber_post.
         ebind (attr_get qot ''snr_dB'') (\<lambda>snr.
         ebind (attr_get qot ''temperature'') (\<lambda>temp.
         ebind (attr_get status ''qot_degrade'') (\<lambda>qot_degrade.
         ebind (attr_get status ''dsp_adaptation'') (\<lambda>dsp_state.
         ebind (run_rules fmt rx ber_pre snr temp qot_degrade dsp_state) (\<lambda>s.
         Inr (finish event s))))))))))"

text \<open>The order \<^verbatim>\<open>info\<close> < \<^verbatim>\<open>warning\<close> < \<^verbatim>\<open>critical\<close> of the three severity names.\<close>

definition sev_rank :: "string \<Rightarrow> nat" where
  "sev_rank v = (if v = ''critical'' then 2 else if v = ''warning'' then 1 else 0)"

definition known_severity :: "string \<Rightarrow> bool" where
  "known_severity v = (v = ''info'' \<or> v = ''warning'' \<or> v = ''critical'')"

text \<open>
  What each field adds to the severity, as a rank: the comparisons of the rules read as
  plain tests (a value that is not a number passes none of them).
\<close>

definition below :: "pyval \<Rightarrow> rat \<Rightarrow> bool" where
  "below v c = (case as_number v of Some f \<Rightarrow> float_lt f c | None \<Rightarrow> False)"

definition above :: "pyval \<Rightarrow> rat \<Rightarrow> bool" where
  "above v c = (case as_number v of Some f \<Rightarrow> float_gt f c | None \<Rightarrow> False)"

definition degrade_level :: "pyval \<Rightarrow> nat" where
  "degrade_level q = (if q = PBool True then 2 else 0)"

definition rx_level :: "pyval \<Rightarrow> nat" where
  "rx_level v = (if below v (- 28) then 2 else if below v (- 26.5) then 1 else 0)"

definition ber_level :: "pyval \<Rightarrow> nat" where
  "ber_level v = (if above v lit_1e_3 then 2 else if above v lit_1e_5 then 1 else 0)"

definition snr_level :: "pyval \<Rightarrow> nat" where
  "snr_level v = (if below v 12 then 2 else if below v 15 then 1 else 0)"

definition temp_level :: "pyval \<Rightarrow> nat" where
  "temp_level v = (if above v 75 then 1 else 0)"

definition dsp_level :: "pyval \<Rightarrow> nat" where
  "dsp_level d =
     (if normalize_dsp d \<in> set [Some ''slow'', Some ''degraded'', Some ''tracking''] then 1 else 0)"

text \<open>
  The value the classifier reads for key \<open>k\<close> of section \<open>sec\<close> (\<^verbatim>\<open>qot\<close> or \<^verbatim>\<open>status\<close>),
  and Python's \<^verbatim>\<open>a <= b\<close> on two numbers.
\<close>

definition field :: "(string \<times> pyval) list \<Rightarrow> string \<Rightarrow> string \<Rightarrow> pyval" where
  "field event sec k = (case get_section event sec of PDict d \<Rightarrow> dict_get d k | _ \<Rightarrow> PNone)"

fun float_le :: "pyfloat \<Rightarrow> pyfloat \<Rightarrow> bool" where
  "float_le NaN y = False"
| "float_le x NaN = False"
| "float_le NegInf y = True"
| "float_le x PosInf = True"
| "float_le (Fin a) (Fin b) = (a \<le> b)"
| "float_le x y = False"

definition num_le :: "pyval \<Rightarrow> pyval \<Rightarrow> bool" where
  "num_le a b =
     (case (as_number a, as_number b) of (Some x, Some y) \<Rightarrow> float_le x y | _ \<Rightarrow> False)"

text \<open>
  One field changed to a worsening value: the flag set, a keyword of the degraded
  vocabulary, a lower power or SNR, a higher BER or temperature. A field that was null
  fired no rule, so filling it in counts as well.
\<close>

definition worse_flag :: "pyval \<Rightarrow> pyval \<Rightarrow> bool" where
  "worse_flag old new = (new = old \<or> new = PBool True)"

definition worse_dsp :: "pyval \<Rightarrow> pyval \<Rightarrow> bool" where
  "worse_dsp old new =
     (new = old \<or> normalize_dsp new \<in> set [Some ''slow'', Some ''degraded'', Some ''tracking''])"

definition worse_low :: "pyval \<Rightarrow> pyval \<Rightarrow> bool" where
  "worse_low old new = (new = old \<or> old = PNone \<or> num_le new old)"

definition worse_high :: "pyval \<Rightarrow> pyval \<Rightarrow> bool" where
  "worse_high old new = (new = old \<or> old = PNone \<or> num_le old new)"

definition worsened :: "(string \<times> pyval) list \<Rightarrow> (string \<times> pyval) list \<Rightarrow> bool" where
  "worsened e e' =
     (worse_flag (field e ''status'' ''qot_degrade'') (field e' ''status'' ''qot_degrade'') \<and>
      worse_low (field e ''qot'' ''rx_power_dBm'') (field e' ''qot'' ''rx_power_dBm'') \<and>
      worse_high (field e ''qot'' ''ber_pre_fec'') (field e' ''qot'' ''ber_pre_fec'') \<and>
      worse_low (field e ''qot'' ''snr_dB'') (field e' ''qot'' ''snr_dB'') \<and>
      worse_high (field e ''qot'' ''temperature'') (field e' ''qot'' ''temperature'') \<and>
      worse_dsp (field e ''status'' ''dsp_adaptation'') (field e' ''status'' ''dsp_adaptation''))"

text \<open>
  The inputs on which no operation of the classifier raises: each section is missing,
  falsy or a dict, and each of the four numeric fields it compares is null, a bool, a
  float, or an int that converts to a float.
\<close>

definition section_ok :: "(string \<times> pyval) list \<Rightarrow> string \<Rightarrow> bool" where
  "section_ok event k = (case get_section event k of PDict d \<Rightarrow> True | _ \<Rightarrow> False)"

definition numeric_ok :: "pyval \<Rightarrow> bool" where
  "numeric_ok v =
     (case v of PNone \<Rightarrow> True | PBool b \<Rightarrow> True | PFloat f \<Rightarrow> True
      | PInt i \<Rightarrow> \<bar>i\<bar> < float_overflow | _ \<Rightarrow> False)"

definition well_typed :: "(string \<times> pyval) list \<Rightarrow> bool" where
  "well_typed event =
     (section_ok event ''qot'' \<and> section_ok event ''status'' \<and>
      numeric_ok (field event ''qot'' ''rx_power_dBm'') \<and>
      numeric_ok (field event ''qot'' ''ber_pre_fec'') \<and>
      numeric_ok (field event ''qot'' ''snr_dB'') \<and>
      numeric_ok (field event ''qot'' ''temperature''))"

text \<open>A formatter that prints no digits, to run the classifier on a concrete event.\<close>

definition no_digits :: formatter where
  "no_digits v spec = []"

text \<open>
  The degraded sample: the floats are the exact values of the doubles \<^verbatim>\<open>-29.5\<close>, \<^verbatim>\<open>12.3\<close>,
  \<^verbatim>\<open>5.2e-5\<close> and \<^verbatim>\<open>78.2\<close>.
\<close>

definition degraded_event :: "(string \<times> pyval) list" where
  "degraded_event =
     [(''qot'', PDict
         [(''rx_power_dBm'', PFloat (Fin (- 29.5))),
          (''snr_dB'', PFloat (Fin (3462142213541069 / 281474976710656))),
          (''ber_pre_fec'', PFloat (Fin (7673845534663173 / 147573952589676412928))),
          (''temperature'', PFloat (Fin (5502835794693325 / 70368744177664)))]),
      (''status'', PDict
         [(''qot_degrade'', PBool True), (''dsp_adaptation'', PStr ''slow'')])]"

text \<open>The layer is \<^verbatim>\<open>PHY\<close> exactly when a cause has been appended.\<close>

definition layer_inv :: "verdict \<Rightarrow> bool" where
  "layer_inv s =
     ((likely_layer s = ''PHY'' \<and> probable_causes s \<noteq> []) \<or>
      (likely_layer s = ''Unknown'' \<and> probable_causes s = []))"

text \<open>An event that carries a received power and nothing else to classify.\<close>

definition rx_event :: "pyval \<Rightarrow> (string \<times> pyval) list" where
  "rx_event v = [(''onu_id'', PStr ''1''), (''qot'', PDict [(''rx_power_dBm'', v)])]"

text \<open>An event whose status fields have unexpected types, and whose power is an int.\<close>

definition odd_status_event :: "(string \<times> pyval) list" where
  "odd_status_event =
     [(''qot'', PDict [(''rx_power_dBm'', PInt (- 27))]),
      (''status'', PDict [(''qot_degrade'', PStr ''yes''), (''dsp_adaptation'', PInt 5)])]"

section \<open>Strings\<close>

text \<open>
  \<^verbatim>\<open>s.startswith(p)\<close>, \<^verbatim>\<open>s.find(p)\<close> (\<open>None\<close> for -1), \<^verbatim>\<open>p in s\<close>, \<^verbatim>\<open>s.split(sep)\<close> for a
  non-empty separator, \<^verbatim>\<open>sep.join(xs)\<close>, \<^verbatim>\<open>s.strip()\<close> and the slice \<^verbatim>\<open>xs[i:]\<close>.
\<close>

fun starts_with :: "string \<Rightarrow> string \<Rightarrow> bool" where
  "starts_with s [] = True"
| "starts_with [] (p # ps) = False"
| "starts_with (c # cs) (p # ps) = (c = p \<and> starts_with cs ps)"

fun find_sub :: "string \<Rightarrow> string \<Rightarrow> nat option" where
  "find_sub p [] = (if p = [] then Some 0 else None)"
| "find_sub p (c # cs) =
     (if starts_with (c # cs) p then Some 0 else map_option Suc (find_sub p cs))"

definition contains :: "string \<Rightarrow> string \<Rightarrow> bool" where
  "contains p s = (find_sub p s \<noteq> None)"

fun split_from :: "string \<Rightarrow> string \<Rightarrow> string \<Rightarrow> string list" where
  "split_from sep acc [] = [acc]"
| "split_from sep acc (c # cs) =
     (if starts_with (c # cs) sep then acc # split_from sep [] (drop (length sep - 1) cs)
      else split_from sep (acc @ [c]) cs)"

definition py_split :: "string \<Rightarrow> string \<Rightarrow> string list" where
  "py_split s sep = split_from sep [] s"

fun join :: "string \<Rightarrow> string list \<Rightarrow> string" where
  "join sep [] = []"
| "join sep [x] = x"
| "join sep (x # y # ys) = x @ sep @ join sep (y # ys)"

definition py_isspace :: "char \<Rightarrow> bool" where
  "py_isspace c = ((of_char c :: nat) \<in> set [9, 10, 11, 12, 13, 28, 29, 30, 31, 32, 133, 160])"

definition py_strip :: "string \<Rightarrow> string" where
  "py_strip s = rev (dropWhile py_isspace (rev (dropWhile py_isspace s)))"

definition slice_from :: "int \<Rightarrow> 'a list \<Rightarrow> 'a list" where
  "slice_from i xs = (if i < 0 then drop (length xs - nat (- i)) xs else drop (nat i) xs)"

section \<open>Element trees\<close>

text \<open>
  \<^verbatim>\<open>ET.fromstring\<close> is a parameter of the model: a function from the text of a block to
  the tree it parses to, \<open>None\<close> when it raises \<^verbatim>\<open>ParseError\<close>. An element has a tag, a
  text (None when there is none) and its child elements.
\<close>

datatype element = Element (elem_tag: string) (elem_text: "string option")
  (elem_children: "element list")

type_synonym xml_parser = "string \<Rightarrow> element option"

text \<open>
  The namespace loop over \<^verbatim>\<open>root.iter()\<close>: a tag \<^verbatim>\<open>{uri}local\<close> is replaced by what
  follows its first \<^verbatim>\<open>}\<close>.
\<close>

definition strip_tag :: "string \<Rightarrow> string" where
  "strip_tag t = (if CHR ''}'' \<in> set t then tl (dropWhile (\<lambda>c. c \<noteq> CHR ''}'') t) else t)"

fun strip_namespaces :: "element \<Rightarrow> element" where
  "strip_namespaces (Element t x cs) = Element (strip_tag t) x (map strip_namespaces cs)"

text \<open>
  \<^verbatim>\<open>root.find(".//name")\<close>: the first element below the root, in document order, with
  that tag. Truth of an element (\<^verbatim>\<open>if elem:\<close>) is that it has child elements.
\<close>

fun descendants :: "element \<Rightarrow> element list" where
  "descendants (Element t x cs) = concat (map (\<lambda>c. c # descendants c) cs)"

definition find_elem :: "element \<Rightarrow> string \<Rightarrow> element option" where
  "find_elem root_el name = List.find (\<lambda>e. elem_tag e = name) (descendants root_el)"

definition elem_truthy :: "element option \<Rightarrow> bool" where
  "elem_truthy e = (case e of None \<Rightarrow> False | Some x \<Rightarrow> elem_children x \<noteq> [])"

definition text_of :: "element option \<Rightarrow> string option" where
  \<comment> \<open>\<^verbatim>\<open>e.text if e is not None else None\<close>\<close>
  "text_of e = (case e of None \<Rightarrow> None | Some x \<Rightarrow> elem_text x)"

definition py_str :: "string option \<Rightarrow> string" where
  \<comment> \<open>\<^verbatim>\<open>str(x)\<close> of a string or None\<close>
  "py_str x = (case x of None \<Rightarrow> ''None'' | Some t \<Rightarrow> t)"

section \<open>Telemetry parser\<close>

record qot_fields =
  rx_power_dBm :: "pyfloat option"
  snr_dB :: "pyfloat option"
  ber_pre_fec :: "pyfloat option"
  ber_post_fec :: "pyfloat option"
  temperature :: "pyfloat option"

record status_fields =
  qot_degrade :: "bool option"
  dsp_adaptation :: "string option"

record telemetry_event =
  timestamp :: "string option"
  olt_id :: "string option"
  onu_id :: "string option"
  qot :: qot_fields
  status :: status_fields

text \<open>
  \<^verbatim>\<open>float(t)\<close> on a string is the second parameter: \<open>None\<close> when it raises ValueError.
  \<^verbatim>\<open>_to_float\<close> calls it on a text that is neither None nor empty.
\<close>

type_synonym float_parser = "string \<Rightarrow> pyfloat option"

definition to_float :: "float_parser \<Rightarrow> string option \<Rightarrow> error + pyfloat option" where
  "to_float pyfloat t =
     (case t of
        None \<Rightarrow> Inr None
      | Some x \<Rightarrow>
          if x = [] then Inr None
          else (case pyfloat x of None \<Rightarrow> Inl ValueError | Some f \<Rightarrow> Inr (Some f)))"

text \<open>
  \<^verbatim>\<open>_parse_single_record\<close>: \<open>Inr None\<close> is the \<^verbatim>\<open>return None\<close> of the handler of
  \<^verbatim>\<open>ET.ParseError\<close>, the only exception it catches; \<open>Inl\<close> is an exception that leaves it.
  The variable \<^verbatim>\<open>root\<close> is \<open>root_el\<close> here.
\<close>

definition parse_single_record ::
  "xml_parser \<Rightarrow> float_parser \<Rightarrow> string \<Rightarrow> error + telemetry_event option" where
  "parse_single_record fromstring pyfloat raw_record =
     (case fromstring raw_record of
        None \<Rightarrow> Inr None
      | Some parsed \<Rightarrow>
          (let root_el = strip_namespaces parsed;
               event_time_elem = find_elem root_el ''eventTime'';
               ts = (if elem_truthy event_time_elem then text_of event_time_elem else None);
               olt_elem = find_elem root_el ''olt-id'';
               onu_elem = find_elem root_el ''onu-id'';
               olt = (if olt_elem \<noteq> None then text_of olt_elem else None);
               onu = (if onu_elem \<noteq> None then Some (py_str (text_of onu_elem)) else None);
               rx = find_elem root_el ''rx-power'';
               snr = find_elem root_el ''snr'';
               ber_pre = find_elem root_el ''ber-pre-fec'';
               ber_post = find_elem root_el ''ber-post-fec'';
               temp = find_elem root_el ''temperature''
           in ebind (to_float pyfloat (text_of rx)) (\<lambda>rx_v.
              ebind (to_float pyfloat (text_of snr)) (\<lambda>snr_v.
              ebind (to_float pyfloat (text_of ber_pre)) (\<lambda>ber_pre_v.
              ebind (to_float pyfloat (text_of ber_post)) (\<lambda>ber_post_v.
              ebind (to_float pyfloat (text_of temp)) (\<lambda>temp_v.
              (let qot_deg = find_elem root_el ''qot-degrade'';
                   dsp = find_elem root_el ''dsp-adaptation''
               in Inr (Some
                    \<lparr> timestamp = ts, olt_id = olt, onu_id = onu,
                      qot = \<lparr> rx_power_dBm = rx_v, snr_dB = snr_v, ber_pre_fec = ber_pre_v,
                              ber_post_fec = ber_post_v, temperature = temp_v \<rparr>,
                      status =
                        \<lparr> qot_degrade =
                            (case text_of qot_deg of
                               None \<Rightarrow> None
                             | Some t \<Rightarrow> if t = [] then None
                                         else Some (py_lower t = ''true'')),
                          dsp_adaptation = text_of dsp \<rparr> \<rparr>)))))))))"

text \<open>
  The first loop of \<^verbatim>\<open>parse_telemetry_log\<close>, over the blocks: an event is kept when it is
  not None and its \<^verbatim>\<open>onu_id\<close> is a non-empty string.
\<close>

definition keeps :: "telemetry_event option \<Rightarrow> bool" where
  "keeps event = (case event of None \<Rightarrow> False | Some ev \<Rightarrow>
                    (case onu_id ev of None \<Rightarrow> False | Some i \<Rightarrow> i \<noteq> []))"

fun parse_blocks ::
  "xml_parser \<Rightarrow> float_parser \<Rightarrow> string list \<Rightarrow> error + telemetry_event list" where
  "parse_blocks fromstring pyfloat [] = Inr []"
| "parse_blocks fromstring pyfloat (block # rest) =
     (if \<not> contains ''<notification'' block then parse_blocks fromstring pyfloat rest
      else
        (let full_block = block @ ''</notification>''
         in case find_sub ''<notification'' full_block of
              None \<Rightarrow> parse_blocks fromstring pyfloat rest
            | Some start_idx \<Rightarrow>
                ebind (parse_single_record fromstring pyfloat (drop start_idx full_block))
                  (\<lambda>event.
                ebind (parse_blocks fromstring pyfloat rest) (\<lambda>parsed_events.
                Inr (if keeps event then the event # parsed_events else parsed_events)))))"

text \<open>
  The second loop groups by \<^verbatim>\<open>str(event["onu_id"])\<close>; the dict \<^verbatim>\<open>grouped\<close> is an association
  list in insertion order. The third keeps \<^verbatim>\<open>events[-5:]\<close> of each group.
\<close>

definition group_event ::
  "(string \<times> telemetry_event list) list \<Rightarrow> telemetry_event \<Rightarrow>
   (string \<times> telemetry_event list) list" where
  "group_event grouped event =
     (let oid = py_str (onu_id event)
      in case map_of grouped oid of
           None \<Rightarrow> grouped @ [(oid, [event])]
         | Some events \<Rightarrow> AList.update oid (events @ [event]) grouped)"

definition group_events ::
  "telemetry_event list \<Rightarrow> (string \<times> telemetry_event list) list" where
  "group_events parsed_events = foldl group_event [] parsed_events"

definition keep_last_5 ::
  "(string \<times> telemetry_event list) list \<Rightarrow> (string \<times> telemetry_event list) list" where
  "keep_last_5 grouped = map (\<lambda>(oid, events). (oid, slice_from (- 5) events)) grouped"

definition parsed_events_of ::
  "xml_parser \<Rightarrow> float_parser \<Rightarrow> string \<Rightarrow> error + telemetry_event list" where
  "parsed_events_of fromstring pyfloat raw_log =
     parse_blocks fromstring pyfloat (py_split raw_log ''</notification>'')"

definition parse_telemetry_log ::
  "xml_parser \<Rightarrow> float_parser \<Rightarrow> string \<Rightarrow>
   error + (string \<times> telemetry_event list) list" where
  "parse_telemetry_log fromstring pyfloat raw_log =
     ebind (parsed_events_of fromstring pyfloat raw_log) (\<lambda>parsed_events.
     Inr (keep_last_5 (group_events parsed_events)))"


section \<open>Record store\<close>

text \<open>
  \<^verbatim>\<open>get_latest_netconf_records\<close> reads the log file (\<open>None\<close> when it does not exist),
  cuts it into records line by line, and filters by ONU when \<^verbatim>\<open>onu_id\<close> is a non-empty
  string (the argument \<open>onu_id_arg\<close>). \<open>current_record\<close> is the list of lines collected so far.
\<close>

fun collect_records :: "string list \<Rightarrow> string list \<Rightarrow> string list" where
  "collect_records current_record [] = []"
| "collect_records current_record (line # rest) =
     (if starts_with (py_strip line) ''<notification'' then collect_records [line] rest
      else if starts_with (py_strip line) ''</notification>'' then
        join [CHR 0x0A] (current_record @ [line]) # collect_records [] rest
      else if current_record \<noteq> [] then collect_records (current_record @ [line]) rest
      else collect_records current_record rest)"

definition read_records :: "string \<Rightarrow> string list" where
  "read_records content = collect_records [] (py_split content [CHR 0x0A])"

text \<open>
  The body of the \<^verbatim>\<open>try\<close> in the filter loop: whether the record is appended. A record
  that raises \<^verbatim>\<open>ET.ParseError\<close> takes the \<^verbatim>\<open>continue\<close> of the handler.
\<close>

definition record_matches :: "xml_parser \<Rightarrow> string \<Rightarrow> string \<Rightarrow> bool" where
  "record_matches fromstring onu record =
     (case fromstring record of
        None \<Rightarrow> False
      | Some parsed \<Rightarrow>
          (case find_elem (strip_namespaces parsed) ''onu-id'' of
             None \<Rightarrow> False
           | Some onu_elem \<Rightarrow> py_str (elem_text onu_elem) = onu))"

fun filter_records :: "xml_parser \<Rightarrow> string \<Rightarrow> string list \<Rightarrow> string list" where
  "filter_records fromstring onu [] = []"
| "filter_records fromstring onu (record # rest) =
     (if record_matches fromstring onu record
      then record # filter_records fromstring onu rest
      else filter_records fromstring onu rest)"

definition get_latest_netconf_records ::
  "xml_parser \<Rightarrow> string option \<Rightarrow> int \<Rightarrow> string option \<Rightarrow> string list" where
  "get_latest_netconf_records fromstring log_file count onu_id_arg =
     (case log_file of
        None \<Rightarrow> []
      | Some content \<Rightarrow>
          (let records = read_records content
           in case onu_id_arg of
                Some onu \<Rightarrow>
                  if onu \<noteq> [] then
                    (let filtered = filter_records fromstring onu records
                     in if filtered \<noteq> [] then slice_from (- count) filtered else [])
                  else (if records \<noteq> [] then slice_from (- count) records else [])
              | None \<Rightarrow> (if records \<noteq> [] then slice_from (- count) records else [])))"

section \<open>Cache worker\<close>

text \<open>
  The three module globals, the cache file as \<^verbatim>\<open>load_cache_from_file\<close> would read it
  (\<open>None\<close>: missing or unreadable), and two counters that are not program variables:
  how often \<^verbatim>\<open>fetch_and_parse_with_agent\<close> and \<^verbatim>\<open>save_cache_to_file\<close> were called.
  The parsed data is a dict, an association list here.
\<close>

record 'v cache_obj =
  co_parsed_data :: "(string \<times> 'v) list"
  co_timestamp :: rat
  co_timestamp_iso :: string
  co_data_hash :: "string option"

record 'v worker =
  global_parsed_cache :: "(string \<times> 'v) list option"
  cache_timestamp :: "rat option"
  last_processed_record_hash :: "string option"
  cache_file :: "'v cache_obj option"
  parse_calls :: nat
  save_calls :: nat

text \<open>
  What one cycle meets outside the module: the result of the fetch in \<^verbatim>\<open>update_cache\<close>
  (\<open>Inl\<close>: it raised), the result of \<^verbatim>\<open>fetch_and_parse_with_agent\<close>, the clock, whether
  \<^verbatim>\<open>mkdir\<close> raises, and, when writing the file raises, what is left of the file.
\<close>

record 'v cycle_env =
  fetched :: "error + string list"
  agent_result :: "(string \<times> 'v) list option"
  now :: rat
  mkdir_raises :: bool
  failed_write :: "'v cache_obj option option"

text \<open>
  \<^verbatim>\<open>hashlib.md5(s.encode()).hexdigest()\<close> is the parameter \<open>md5\<close>, \<^verbatim>\<open>time.strftime\<close> of
  the UTC time the parameter \<open>strftime\<close>.
\<close>

definition compute_data_hash :: "(string \<Rightarrow> string) \<Rightarrow> string list \<Rightarrow> string" where
  "compute_data_hash md5 records =
     (if records = [] then [] else md5 (hd records @ last records))"

definition has_new_data ::
  "(string \<Rightarrow> string) \<Rightarrow> string list \<Rightarrow> 'v worker \<Rightarrow> bool \<times> 'v worker" where
  "has_new_data md5 records w =
     (let current_hash = compute_data_hash md5 records
      in case last_processed_record_hash w of
           None \<Rightarrow> (True, w\<lparr>last_processed_record_hash := Some current_hash\<rparr>)
         | Some h \<Rightarrow>
             if current_hash \<noteq> h
             then (True, w\<lparr>last_processed_record_hash := Some current_hash\<rparr>)
             else (False, w))"

text \<open>\<open>Inl\<close> is the exception of \<^verbatim>\<open>mkdir\<close>, which no handler catches, with the state it leaves.\<close>

definition save_cache_to_file ::
  "(rat \<Rightarrow> string) \<Rightarrow> 'v cycle_env \<Rightarrow> (string \<times> 'v) list \<Rightarrow> 'v worker \<Rightarrow>
   'v worker + 'v worker" where
  "save_cache_to_file strftime env parsed_data w =
     (let w0 = w\<lparr>save_calls := save_calls w + 1\<rparr>
      in if mkdir_raises env then Inl w0
         else
           (let w1 = w0\<lparr>global_parsed_cache := Some parsed_data,
                         cache_timestamp := Some (now env)\<rparr>;
                cache_object =
                  \<lparr> co_parsed_data = parsed_data, co_timestamp = now env,
                    co_timestamp_iso = strftime (now env),
                    co_data_hash = last_processed_record_hash w1 \<rparr>
            in case failed_write env of
                 None \<Rightarrow> Inr (w1\<lparr>cache_file := Some cache_object\<rparr>)
               | Some left \<Rightarrow> Inr (w1\<lparr>cache_file := left\<rparr>)))"

definition update_cache ::
  "(string \<Rightarrow> string) \<Rightarrow> (rat \<Rightarrow> string) \<Rightarrow> 'v cycle_env \<Rightarrow> 'v worker \<Rightarrow>
   'v worker + 'v worker" where
  "update_cache md5 strftime env w =
     (case fetched env of
        Inl e \<Rightarrow> Inr w
      | Inr records \<Rightarrow>
          if records = [] then Inr w
          else
            (case has_new_data md5 records w of
               (False, w1) \<Rightarrow> Inr w1
             | (True, w1) \<Rightarrow>
                 (let w2 = w1\<lparr>parse_calls := parse_calls w1 + 1\<rparr>
                  in case agent_result env of
                       None \<Rightarrow> Inr w2
                     | Some parsed_data \<Rightarrow>
                         if parsed_data \<noteq> [] then save_cache_to_file strftime env parsed_data w2
                         else Inr w2)))"

definition after :: "'v worker + 'v worker \<Rightarrow> 'v worker" where
  \<comment> \<open>the state a cycle leaves, whether it returned or raised\<close>
  "after r = (case r of Inl w \<Rightarrow> w | Inr w \<Rightarrow> w)"

section \<open>Sample records\<close>

text \<open>
  A few records, with the tree \<^verbatim>\<open>ET.fromstring\<close> builds for each. \<open>sample_fromstring\<close> is
  \<^verbatim>\<open>ET.fromstring\<close> on them; \<open>broken_record\<close>, whose \<^verbatim>\<open>onu-id\<close> is never closed, raises
  \<^verbatim>\<open>ParseError\<close>. \<open>sample_float\<close> is \<^verbatim>\<open>float\<close> on the two number texts that occur.
\<close>

definition sample_block :: "string \<Rightarrow> string \<Rightarrow> string" where
  "sample_block onu olt =
     ''<notification><olt-id>'' @ olt @ ''</olt-id><onu-id>'' @ onu @
     ''</onu-id></notification>''"

definition sample_tree :: "string \<Rightarrow> string \<Rightarrow> element" where
  "sample_tree onu olt =
     Element ''notification'' None
       [Element ''olt-id'' (Some olt) [], Element ''onu-id'' (Some onu) []]"

definition timed_record :: string where
  "timed_record =
     ''<notification><eventTime>2025-11-24T10:00:00Z</eventTime>'' @
     ''<onu-id>1</onu-id><rx-power>-23.5</rx-power></notification>''"

definition timed_tree :: element where
  "timed_tree =
     Element ''notification'' None
       [Element ''eventTime'' (Some ''2025-11-24T10:00:00Z'') [],
        Element ''onu-id'' (Some ''1'') [],
        Element ''rx-power'' (Some ''-23.5'') []]"

definition bad_number_record :: string where
  "bad_number_record =
     ''<notification><onu-id>2</onu-id><rx-power>abc</rx-power></notification>''"

definition bad_number_tree :: element where
  "bad_number_tree =
     Element ''notification'' None
       [Element ''onu-id'' (Some ''2'') [], Element ''rx-power'' (Some ''abc'') []]"

definition broken_record :: string where
  "broken_record = ''<notification><onu-id>1</notification>''"

definition sample_fromstring :: xml_parser where
  "sample_fromstring s =
     map_of
       [(sample_block ''1'' ''a'', sample_tree ''1'' ''a''),
        (sample_block ''1'' ''b'', sample_tree ''1'' ''b''),
        (sample_block ''1'' ''c'', sample_tree ''1'' ''c''),
        (sample_block ''1'' ''d'', sample_tree ''1'' ''d''),
        (sample_block ''1'' ''e'', sample_tree ''1'' ''e''),
        (sample_block ''1'' ''f'', sample_tree ''1'' ''f''),
        (sample_block ''2'' ''x'', sample_tree ''2'' ''x''),
        (timed_record, timed_tree),
        (bad_number_record, bad_number_tree)] s"

definition sample_float :: float_parser where
  "sample_float s = (if s = ''-23.5'' then Some (Fin (- 23.5)) else None)"

definition sample_event :: "string \<Rightarrow> string \<Rightarrow> telemetry_event" where
  "sample_event onu olt =
     \<lparr> timestamp = None, olt_id = Some olt, onu_id = Some onu,
       qot = \<lparr> rx_power_dBm = None, snr_dB = None, ber_pre_fec = None, ber_post_fec = None,
               temperature = None \<rparr>,
       status = \<lparr> qot_degrade = None, dsp_adaptation = None \<rparr> \<rparr>"

definition sample_log :: string where
  "sample_log =
     join [CHR 0x0A]
       [sample_block ''1'' ''a'', sample_block ''2'' ''x'', sample_block ''1'' ''b'',
        broken_record, sample_block ''1'' ''c'', sample_block ''1'' ''d'',
        sample_block ''1'' ''e'', sample_block ''1'' ''f'']"

definition bad_number_log :: string where
  "bad_number_log =
     join [CHR 0x0A] [sample_block ''1'' ''a'', bad_number_record, sample_block ''1'' ''b'']"

definition timed_event :: telemetry_event where
  "timed_event =
     \<lparr> timestamp = None, olt_id = None, onu_id = Some ''1'',
       qot = \<lparr> rx_power_dBm = Some (Fin (- 23.5)), snr_dB = None, ber_pre_fec = None,
               ber_post_fec = None, temperature = None \<rparr>,
       status = \<lparr> qot_degrade = None, dsp_adaptation = None \<rparr> \<rparr>"

text \<open>
  Records as the store cuts them, one tag per line, with \<^verbatim>\<open>ET.fromstring\<close> on them
  (\<open>store_fromstring\<close>): the second kind never closes its \<^verbatim>\<open>onu-id\<close> and raises
  \<^verbatim>\<open>ParseError\<close>.
\<close>

definition store_record :: "string \<Rightarrow> string" where
  "store_record onu =
     join [CHR 0x0A] [''<notification>'', ''<onu-id>'' @ onu @ ''</onu-id>'', ''</notification>'']"

definition store_tree :: "string \<Rightarrow> element" where
  "store_tree onu =
     Element ''notification'' (Some [CHR 0x0A]) [Element ''onu-id'' (Some onu) []]"

definition store_broken :: string where
  "store_broken = join [CHR 0x0A] [''<notification>'', ''<onu-id>1'', ''</notification>'']"

definition store_fromstring :: xml_parser where
  "store_fromstring s =
     map_of [(store_record ''1'', store_tree ''1''), (store_record ''2'', store_tree ''2'')] s"

definition store_content :: string where
  "store_content =
     join [CHR 0x0A]
       [store_record ''2'', store_record ''1'', store_broken, store_record ''1'', []]"

text \<open>
  A worker that holds a snapshot, and two cycles: one whose parse fails and one whose
  parse succeeds. \<open>stand_in_md5\<close> (the identity) and \<open>stand_in_strftime\<close> stand for the two
  library functions on this data.
\<close>

definition stand_in_md5 :: "string \<Rightarrow> string" where
  "stand_in_md5 s = s"

definition stand_in_strftime :: "rat \<Rightarrow> string" where
  "stand_in_strftime t = ''1970-01-01T00:03:20Z''"

definition warm_worker :: "nat worker" where
  "warm_worker =
     \<lparr> global_parsed_cache = Some [(''1'', 5)], cache_timestamp = Some 100,
       last_processed_record_hash = Some ''old'',
       cache_file = Some \<lparr> co_parsed_data = [(''1'', 5)], co_timestamp = 100,
                            co_timestamp_iso = ''1970-01-01T00:01:40Z'',
                            co_data_hash = Some ''old'' \<rparr>,
       parse_calls = 0, save_calls = 0 \<rparr>"

definition failing_cycle :: "nat cycle_env" where
  "failing_cycle =
     \<lparr> fetched = Inr [''r1'', ''r2''], agent_result = None, now = 200,
       mkdir_raises = False, failed_write = None \<rparr>"

definition good_cycle :: "nat cycle_env" where
  "good_cycle =
     \<lparr> fetched = Inr [''r1'', ''r2''], agent_result = Some [(''1'', 6)], now = 200,
       mkdir_raises = False, failed_write = None \<rparr>"

section \<open>Properties of the classifier\<close>

lemma ebind_Inr [simp]: "ebind (Inr x) f = f x"
  by (simp add: ebind_def)

lemma ebind_Inl [simp]: "ebind (Inl e) f = Inl e"
  by (simp add: ebind_def)

lemma ebind_eq_Inr: "ebind m f = Inr y \<longleftrightarrow> (\<exists>x. m = Inr x \<and> f x = Inr y)"
  by (cases m) simp_all

lemmas branch_defs =
  rx_near_def rx_low_def ber_extreme_def ber_above_def ber_slight_def snr_critical_def
  snr_marginal_def temp_high_def add_cause_def add_actions_def add_note_def
  escalate_to_warning_def layer_if_unknown_def

lemma py_lt_Inr: "py_lt v c = Inr b \<Longrightarrow> b = below v c"
  by (auto simp: py_lt_def below_def split: option.splits)

lemma py_gt_Inr: "py_gt v c = Inr b \<Longrightarrow> b = above v c"
  by (auto simp: py_gt_def above_def split: option.splits)

lemma below_mono: "below v c \<Longrightarrow> c \<le> d \<Longrightarrow> below v d"
  by (cases v) (auto simp: below_def elim: float_lt.elims split: if_splits)

lemma above_mono: "above v d \<Longrightarrow> c \<le> d \<Longrightarrow> above v c"
  by (cases v) (auto simp: above_def elim: float_gt.elims split: if_splits)

lemma lit_order: "lit_1e_5 \<le> lit_1e_4" "lit_1e_4 \<le> lit_1e_3"
  by (simp_all add: lit_1e_3_def lit_1e_4_def lit_1e_5_def)

lemma known_rank:
  "known_severity v \<Longrightarrow> (sev_rank v = 0 \<longleftrightarrow> v = ''info'') \<and> (sev_rank v = 1 \<longleftrightarrow> v = ''warning'')
     \<and> (sev_rank v = 2 \<longleftrightarrow> v = ''critical'')"
  by (auto simp: known_severity_def sev_rank_def)


lemma sev_simps [simp]:
  "severity (add_cause c s) = severity s"
  "severity (add_actions as s) = severity s"
  "severity (add_note n s) = severity s"
  "severity (layer_if_unknown s) = severity s"
  by (simp_all add: add_cause_def add_actions_def add_note_def layer_if_unknown_def)

lemma escalate_level:
  "known_severity (severity s) \<Longrightarrow>
   known_severity (severity (escalate_to_warning s)) \<and>
   sev_rank (severity (escalate_to_warning s)) = max (sev_rank (severity s)) 1"
  by (auto simp: escalate_to_warning_def known_severity_def sev_rank_def)

lemma critical_level:
  "known_severity (severity s) \<Longrightarrow>
   known_severity ''critical'' \<and> sev_rank ''critical'' = max (sev_rank (severity s)) 2"
  by (auto simp: known_severity_def sev_rank_def)

lemma warning_branches:
  assumes "known_severity (severity s)"
  shows "known_severity (severity (rx_near t s)) \<and>
           sev_rank (severity (rx_near t s)) = max (sev_rank (severity s)) 1"
    and "known_severity (severity (ber_above t s)) \<and>
           sev_rank (severity (ber_above t s)) = max (sev_rank (severity s)) 1"
    and "known_severity (severity (ber_slight s)) \<and>
           sev_rank (severity (ber_slight s)) = max (sev_rank (severity s)) 1"
    and "known_severity (severity (snr_marginal t s)) \<and>
           sev_rank (severity (snr_marginal t s)) = max (sev_rank (severity s)) 1"
    and "known_severity (severity (temp_high t s)) \<and>
           sev_rank (severity (temp_high t s)) = max (sev_rank (severity s)) 1"
  using escalate_level[OF assms] escalate_level[of "layer_if_unknown s"]
        escalate_level[of "s\<lparr>likely_layer := ''PHY''\<rparr>"] assms
  by (simp_all add: rx_near_def ber_above_def ber_slight_def snr_marginal_def temp_high_def)

lemma critical_branches:
  assumes "known_severity (severity s)"
  shows "known_severity (severity (rx_low s)) \<and>
           sev_rank (severity (rx_low s)) = max (sev_rank (severity s)) 2"
    and "known_severity (severity (ber_extreme t s)) \<and>
           sev_rank (severity (ber_extreme t s)) = max (sev_rank (severity s)) 2"
    and "known_severity (severity (snr_critical t s)) \<and>
           sev_rank (severity (snr_critical t s)) = max (sev_rank (severity s)) 2"
  using critical_level[OF assms]
  by (simp_all add: rx_low_def ber_extreme_def snr_critical_def)

lemma rule_qot_degrade_level:
  assumes "known_severity (severity s)"
  shows "known_severity (severity (rule_qot_degrade q s)) \<and>
         sev_rank (severity (rule_qot_degrade q s)) = max (sev_rank (severity s)) (degrade_level q)"
  using critical_level[OF assms] assms
  by (simp add: rule_qot_degrade_def degrade_level_def)

lemma rule_rx_power_level:
  assumes "rule_rx_power fmt rx s = Inr s'" "known_severity (severity s)"
  shows "known_severity (severity s') \<and>
         sev_rank (severity s') = max (sev_rank (severity s)) (rx_level rx)"
proof (cases "rx = PNone")
  case True
  with assms show ?thesis by (simp add: rule_rx_power_def rx_level_def below_def)
next
  case False
  with assms obtain near s1 low where
    n: "py_lt rx (- 26.5) = Inr near" and
    s1: "(if near then ebind (format_value fmt rx ''.2f'') (\<lambda>t. Inr (rx_near t s)) else Inr s) = Inr s1" and
    l: "py_lt rx (- 28) = Inr low" and
    s': "s' = (if low then rx_low s1 else s1)"
    by (auto simp: rule_rx_power_def ebind_eq_Inr)
  have nb: "near = below rx (- 26.5)" and lb: "low = below rx (- 28)"
    using n l by (auto dest: py_lt_Inr)
  have ln: "low \<Longrightarrow> near" using below_mono[of rx "- 28" "- 26.5"] nb lb by simp
  have k1: "known_severity (severity s1) \<and>
      sev_rank (severity s1) = max (sev_rank (severity s)) (if near then 1 else 0)"
  proof (cases near)
    case True
    with s1 obtain t where "s1 = rx_near t s" by (auto simp: ebind_eq_Inr)
    with True warning_branches(1)[OF assms(2)] show ?thesis by simp
  next
    case False
    with s1 assms(2) show ?thesis by simp
  qed
  show ?thesis
  proof (cases low)
    case True
    with critical_branches(1)[of s1] k1 ln nb lb show ?thesis
      by (simp add: s' rx_level_def)
  next
    case False
    with k1 nb lb show ?thesis by (auto simp: s' rx_level_def)
  qed
qed

lemma rule_ber_level:
  assumes "rule_ber fmt ber_pre s = Inr s'" "known_severity (severity s)"
  shows "known_severity (severity s') \<and>
         sev_rank (severity s') = max (sev_rank (severity s)) (ber_level ber_pre)"
proof (cases "ber_pre = PNone")
  case True
  with assms show ?thesis by (simp add: rule_ber_def ber_level_def above_def)
next
  case False
  with assms obtain extreme where
    e: "py_gt ber_pre lit_1e_3 = Inr extreme" and
    r1: "(if extreme then ebind (format_value fmt ber_pre ''.2e'') (\<lambda>t. Inr (ber_extreme t s))
          else ebind (py_gt ber_pre lit_1e_4) (\<lambda>above.
               if above then ebind (format_value fmt ber_pre ''.2e'') (\<lambda>t. Inr (ber_above t s))
               else ebind (py_gt ber_pre lit_1e_5) (\<lambda>slight.
                    Inr (if slight then ber_slight s else s)))) = Inr s'"
    by (auto simp: rule_ber_def ebind_eq_Inr)
  have eb: "extreme = above ber_pre lit_1e_3" using e by (rule py_gt_Inr)
  show ?thesis
  proof (cases extreme)
    case True
    with r1 obtain t where "s' = ber_extreme t s" by (auto simp: ebind_eq_Inr)
    with True eb critical_branches(2)[OF assms(2)] show ?thesis by (simp add: ber_level_def)
  next
    case nex: False
    with r1 obtain ab where
      a: "py_gt ber_pre lit_1e_4 = Inr ab" and
      r2: "(if ab then ebind (format_value fmt ber_pre ''.2e'') (\<lambda>t. Inr (ber_above t s))
            else ebind (py_gt ber_pre lit_1e_5) (\<lambda>slight.
                 Inr (if slight then ber_slight s else s))) = Inr s'"
      by (auto simp: ebind_eq_Inr)
    have ab: "ab = above ber_pre lit_1e_4" using a by (rule py_gt_Inr)
    show ?thesis
    proof (cases ab)
      case True
      with r2 obtain t where s': "s' = ber_above t s" by (auto simp: ebind_eq_Inr)
      from True ab have "above ber_pre lit_1e_5" using above_mono lit_order(1) by blast
      with nex eb s' warning_branches(2)[OF assms(2)] show ?thesis by (simp add: ber_level_def)
    next
      case False
      with r2 obtain slight where
        sl: "py_gt ber_pre lit_1e_5 = Inr slight" and
        s': "s' = (if slight then ber_slight s else s)"
        by (auto simp: ebind_eq_Inr)
      have "slight = above ber_pre lit_1e_5" using sl by (rule py_gt_Inr)
      with nex eb s' warning_branches(3)[OF assms(2)] assms(2) show ?thesis
        by (simp add: ber_level_def)
    qed
  qed
qed

lemma rule_snr_level:
  assumes "rule_snr fmt snr s = Inr s'" "known_severity (severity s)"
  shows "known_severity (severity s') \<and>
         sev_rank (severity s') = max (sev_rank (severity s)) (snr_level snr)"
proof (cases "snr = PNone")
  case True
  with assms show ?thesis by (simp add: rule_snr_def snr_level_def below_def)
next
  case False
  with assms obtain critical where
    c: "py_lt snr 12 = Inr critical" and
    r1: "(if critical then ebind (format_value fmt snr ''.1f'') (\<lambda>t. Inr (snr_critical t s))
          else ebind (py_lt snr 15) (\<lambda>marginal.
               if marginal then ebind (format_value fmt snr ''.1f'') (\<lambda>t. Inr (snr_marginal t s))
               else Inr s)) = Inr s'"
    by (auto simp: rule_snr_def ebind_eq_Inr)
  have cb: "critical = below snr 12" using c by (rule py_lt_Inr)
  show ?thesis
  proof (cases critical)
    case True
    with r1 obtain t where "s' = snr_critical t s" by (auto simp: ebind_eq_Inr)
    with True cb critical_branches(3)[OF assms(2)] show ?thesis by (simp add: snr_level_def)
  next
    case ncr: False
    with r1 obtain marginal where
      m: "py_lt snr 15 = Inr marginal" and
      r2: "(if marginal then ebind (format_value fmt snr ''.1f'') (\<lambda>t. Inr (snr_marginal t s))
            else Inr s) = Inr s'"
      by (auto simp: ebind_eq_Inr)
    have mb: "marginal = below snr 15" using m by (rule py_lt_Inr)
    show ?thesis
    proof (cases marginal)
      case True
      with r2 obtain t where "s' = snr_marginal t s" by (auto simp: ebind_eq_Inr)
      with True ncr cb mb warning_branches(4)[OF assms(2)] show ?thesis
        by (simp add: snr_level_def)
    next
      case False
      with r2 ncr cb mb assms(2) show ?thesis by (simp add: snr_level_def)
    qed
  qed
qed

lemma rule_temperature_level:
  assumes "rule_temperature fmt temp s = Inr s'" "known_severity (severity s)"
  shows "known_severity (severity s') \<and>
         sev_rank (severity s') = max (sev_rank (severity s)) (temp_level temp)"
proof (cases "temp = PNone")
  case True
  with assms show ?thesis by (simp add: rule_temperature_def temp_level_def above_def)
next
  case False
  with assms obtain hot where
    h: "py_gt temp 75 = Inr hot" and
    r1: "(if hot then ebind (format_value fmt temp []) (\<lambda>t. Inr (temp_high t s)) else Inr s) = Inr s'"
    by (auto simp: rule_temperature_def ebind_eq_Inr)
  have hb: "hot = above temp 75" using h by (rule py_gt_Inr)
  show ?thesis
  proof (cases hot)
    case True
    with r1 obtain t where "s' = temp_high t s" by (auto simp: ebind_eq_Inr)
    with True hb warning_branches(5)[OF assms(2)] show ?thesis by (simp add: temp_level_def)
  next
    case False
    with r1 hb assms(2) show ?thesis by (simp add: temp_level_def)
  qed
qed

lemma rule_dsp_level:
  assumes "known_severity (severity s)"
  shows "known_severity (severity (rule_dsp (normalize_dsp v) s)) \<and>
         sev_rank (severity (rule_dsp (normalize_dsp v) s)) = max (sev_rank (severity s)) (dsp_level v)"
  using escalate_level[of "s\<lparr>likely_layer := ''PHY''\<rparr>"] assms
  by (simp add: rule_dsp_def dsp_level_def)

lemma run_rules_level:
  assumes "run_rules fmt rx ber_pre snr temp flag dsp_state = Inr s"
  shows "known_severity (severity s) \<and>
         sev_rank (severity s) =
           Max {degrade_level flag, rx_level rx, ber_level ber_pre, snr_level snr,
                temp_level temp, dsp_level dsp_state}"
proof -
  let ?s1 = "rule_qot_degrade flag initial_verdict"
  from assms obtain s2 s3 s4 s5 where
    r2: "rule_rx_power fmt rx ?s1 = Inr s2" and
    r3: "rule_ber fmt ber_pre s2 = Inr s3" and
    r4: "rule_snr fmt snr s3 = Inr s4" and
    r5: "rule_temperature fmt temp s4 = Inr s5" and
    s: "s = rule_dsp (normalize_dsp dsp_state) s5"
    by (auto simp: run_rules_def ebind_eq_Inr)
  have k0: "known_severity (severity initial_verdict)" "sev_rank (severity initial_verdict) = 0"
    by (simp_all add: initial_verdict_def known_severity_def sev_rank_def)
  note l1 = rule_qot_degrade_level[OF k0(1), of flag]
  note l2 = rule_rx_power_level[OF r2 conjunct1[OF l1]]
  note l3 = rule_ber_level[OF r3 conjunct1[OF l2]]
  note l4 = rule_snr_level[OF r4 conjunct1[OF l3]]
  note l5 = rule_temperature_level[OF r5 conjunct1[OF l4]]
  note l6 = rule_dsp_level[OF conjunct1[OF l5], of dsp_state]
  show ?thesis
    using l1 l2 l3 l4 l5 l6 k0(2) unfolding s by (simp add: max.assoc)
qed


lemma rule_rx_power_shape:
  "rule_rx_power fmt rx s = Inr s' \<Longrightarrow>
   s' = s \<or> s' = rx_low s \<or> (\<exists>t. s' = rx_near t s) \<or> (\<exists>t. s' = rx_low (rx_near t s))"
  by (auto simp: rule_rx_power_def ebind_eq_Inr split: if_splits)

lemma rule_ber_shape:
  "rule_ber fmt ber_pre s = Inr s' \<Longrightarrow>
   s' = s \<or> (\<exists>t. s' = ber_extreme t s) \<or> (\<exists>t. s' = ber_above t s) \<or> s' = ber_slight s"
  by (auto simp: rule_ber_def ebind_eq_Inr split: if_splits)

lemma rule_snr_shape:
  "rule_snr fmt snr s = Inr s' \<Longrightarrow>
   s' = s \<or> (\<exists>t. s' = snr_critical t s) \<or> (\<exists>t. s' = snr_marginal t s)"
  by (auto simp: rule_snr_def ebind_eq_Inr split: if_splits)

lemma rule_temperature_shape:
  "rule_temperature fmt temp s = Inr s' \<Longrightarrow> s' = s \<or> (\<exists>t. s' = temp_high t s)"
  by (auto simp: rule_temperature_def ebind_eq_Inr split: if_splits)

lemma layer_inv_branches:
  assumes "layer_inv s"
  shows "layer_inv (rx_near t s)" "layer_inv (rx_low s)" "layer_inv (ber_extreme t s)"
    "layer_inv (ber_above t s)" "layer_inv (ber_slight s)" "layer_inv (snr_critical t s)"
    "layer_inv (snr_marginal t s)" "layer_inv (temp_high t s)"
  using assms by (auto simp: layer_inv_def branch_defs)

lemma layer_inv_rules:
  assumes "layer_inv s"
  shows "layer_inv (rule_qot_degrade q s)"
    and "layer_inv (rule_dsp d s)"
    and "rule_rx_power fmt rx s = Inr s' \<Longrightarrow> layer_inv s'"
    and "rule_ber fmt ber_pre s = Inr s' \<Longrightarrow> layer_inv s'"
    and "rule_snr fmt snr s = Inr s' \<Longrightarrow> layer_inv s'"
    and "rule_temperature fmt temp s = Inr s' \<Longrightarrow> layer_inv s'"
proof -
  show "layer_inv (rule_qot_degrade q s)" "layer_inv (rule_dsp d s)"
    using assms by (auto simp: layer_inv_def rule_qot_degrade_def rule_dsp_def branch_defs)
  show "rule_rx_power fmt rx s = Inr s' \<Longrightarrow> layer_inv s'"
    using layer_inv_branches[OF assms] layer_inv_branches(2)[OF layer_inv_branches(1)[OF assms]] assms
    by (auto dest!: rule_rx_power_shape)
  show "rule_ber fmt ber_pre s = Inr s' \<Longrightarrow> layer_inv s'"
    using layer_inv_branches[OF assms] assms by (auto dest!: rule_ber_shape)
  show "rule_snr fmt snr s = Inr s' \<Longrightarrow> layer_inv s'"
    using layer_inv_branches[OF assms] assms by (auto dest!: rule_snr_shape)
  show "rule_temperature fmt temp s = Inr s' \<Longrightarrow> layer_inv s'"
    using layer_inv_branches[OF assms] assms by (auto dest!: rule_temperature_shape)
qed

lemma run_rules_layer_inv:
  assumes "run_rules fmt rx ber_pre snr temp flag dsp_state = Inr s"
  shows "layer_inv s"
proof -
  from assms obtain s2 s3 s4 s5 where
    r2: "rule_rx_power fmt rx (rule_qot_degrade flag initial_verdict) = Inr s2" and
    r3: "rule_ber fmt ber_pre s2 = Inr s3" and
    r4: "rule_snr fmt snr s3 = Inr s4" and
    r5: "rule_temperature fmt temp s4 = Inr s5" and
    s: "s = rule_dsp (normalize_dsp dsp_state) s5"
    by (auto simp: run_rules_def ebind_eq_Inr)
  have "layer_inv initial_verdict" by (simp add: layer_inv_def initial_verdict_def)
  then have "layer_inv (rule_qot_degrade flag initial_verdict)" by (rule layer_inv_rules(1))
  then have "layer_inv s2" using r2 by (rule layer_inv_rules(3))
  then have "layer_inv s3" using r3 by (rule layer_inv_rules(4))
  then have "layer_inv s4" using r4 by (rule layer_inv_rules(5))
  then have "layer_inv s5" using r5 by (rule layer_inv_rules(6))
  then show ?thesis unfolding s by (rule layer_inv_rules(2))
qed

lemma check_sections:
  "check_ieee_8023_compliance fmt event =
     (if section_ok event ''qot'' \<and> section_ok event ''status'' then
        ebind (run_rules fmt (field event ''qot'' ''rx_power_dBm'')
                 (field event ''qot'' ''ber_pre_fec'') (field event ''qot'' ''snr_dB'')
                 (field event ''qot'' ''temperature'') (field event ''status'' ''qot_degrade'')
                 (field event ''status'' ''dsp_adaptation''))
          (\<lambda>s. Inr (finish event s))
      else Inl AttributeError)"
  by (cases "get_section event ''qot''"; cases "get_section event ''status''";
      simp add: check_ieee_8023_compliance_def section_ok_def field_def Let_def)

lemma finish_fields:
  "likely_layer (finish event s) = likely_layer s"
  "severity (finish event s) = severity s"
  "is_abnormal (finish event s) = (probable_causes s \<noteq> [])"
  "health (finish event s) =
     (if probable_causes s = [] then ''normal''
      else if severity s = ''critical'' then ''major_issue'' else ''minor_issue'')"
  "probable_causes (finish event s) =
     (if probable_causes s = [] then [''No abnormal conditions detected.''] else probable_causes s)"
  by (simp_all add: finish_def Let_def verdict.defs add_cause_def add_actions_def add_note_def)

text \<open>
  C10: whenever the classifier returns, \<^verbatim>\<open>likely_layer\<close> is \<^verbatim>\<open>Unknown\<close> or \<^verbatim>\<open>PHY\<close>, and it is
  \<^verbatim>\<open>PHY\<close> if and only if \<^verbatim>\<open>is_abnormal\<close> is true, that is, if and only if a rule appended
  a cause.
\<close>

theorem layer_phy_iff_abnormal:
  assumes "check_ieee_8023_compliance fmt event = Inr r"
  shows "(likely_layer r = ''Unknown'' \<or> likely_layer r = ''PHY'') \<and>
         (likely_layer r = ''PHY'' \<longleftrightarrow> is_abnormal r)"
proof -
  from assms obtain s where
    s: "run_rules fmt (field event ''qot'' ''rx_power_dBm'')
          (field event ''qot'' ''ber_pre_fec'') (field event ''qot'' ''snr_dB'')
          (field event ''qot'' ''temperature'') (field event ''status'' ''qot_degrade'')
          (field event ''status'' ''dsp_adaptation'') = Inr s" and
    r: "r = finish event s"
    by (auto simp: check_sections ebind_eq_Inr split: if_splits)
  from run_rules_layer_inv[OF s] show ?thesis
    unfolding r by (auto simp: finish_fields layer_inv_def)
qed



lemma degraded_fields:
  "section_ok degraded_event ''qot''" "section_ok degraded_event ''status''"
  "field degraded_event ''qot'' ''rx_power_dBm'' = PFloat (Fin (- 29.5))"
  "field degraded_event ''qot'' ''ber_pre_fec'' = PFloat (Fin (7673845534663173 / 147573952589676412928))"
  "field degraded_event ''qot'' ''snr_dB'' = PFloat (Fin (3462142213541069 / 281474976710656))"
  "field degraded_event ''qot'' ''temperature'' = PFloat (Fin (5502835794693325 / 70368744177664))"
  "field degraded_event ''status'' ''qot_degrade'' = PBool True"
  "field degraded_event ''status'' ''dsp_adaptation'' = PStr ''slow''"
  by (simp_all add: degraded_event_def section_ok_def field_def get_section_def dict_get_def)

lemma lower_slow: "py_lower ''slow'' = ''slow''"
  by (simp add: py_lower_def lower_char_def)


lemma layer_simps [simp]:
  "likely_layer (add_cause c s) = likely_layer s"
  "likely_layer (add_actions as s) = likely_layer s"
  "likely_layer (add_note n s) = likely_layer s"
  "likely_layer (escalate_to_warning s) = likely_layer s"
  by (simp_all add: add_cause_def add_actions_def add_note_def escalate_to_warning_def)

lemma causes_simps [simp]:
  "probable_causes (add_cause c s) = probable_causes s @ [c]"
  "probable_causes (add_actions as s) = probable_causes s"
  "probable_causes (add_note n s) = probable_causes s"
  "probable_causes (escalate_to_warning s) = probable_causes s"
  "probable_causes (layer_if_unknown s) = probable_causes s"
  by (simp_all add: add_cause_def add_actions_def add_note_def escalate_to_warning_def
        layer_if_unknown_def)

lemma escalate_critical [simp]:
  "severity s = ''critical'' \<Longrightarrow> severity (escalate_to_warning s) = ''critical''"
  by (simp add: escalate_to_warning_def)

lemma degraded_step_flag:
  "severity (rule_qot_degrade (PBool True) s) = ''critical''"
  "likely_layer (rule_qot_degrade (PBool True) s) = ''PHY''"
  "probable_causes (rule_qot_degrade (PBool True) s) =
     probable_causes s @ [''QoT degradation reported by ONU.'']"
  by (simp_all add: rule_qot_degrade_def)

lemma degraded_step_rx:
  "rule_rx_power fmt (PFloat (Fin (- 29.5))) s =
     Inr (rx_low (rx_near (fmt (PFloat (Fin (- 29.5))) ''.2f'') s))"
  by (simp add: rule_rx_power_def py_lt_def format_value_def)

lemma degraded_step_ber:
  "rule_ber fmt (PFloat (Fin (7673845534663173 / 147573952589676412928))) s = Inr (ber_slight s)"
  by (simp add: rule_ber_def py_gt_def lit_1e_3_def lit_1e_4_def lit_1e_5_def)

lemma degraded_step_snr:
  "rule_snr fmt (PFloat (Fin (3462142213541069 / 281474976710656))) s =
     Inr (snr_marginal (fmt (PFloat (Fin (3462142213541069 / 281474976710656))) ''.1f'') s)"
  by (simp add: rule_snr_def py_lt_def format_value_def)

lemma degraded_step_temp:
  "rule_temperature fmt (PFloat (Fin (5502835794693325 / 70368744177664))) s =
     Inr (temp_high (fmt (PFloat (Fin (5502835794693325 / 70368744177664))) []) s)"
  by (simp add: rule_temperature_def py_gt_def format_value_def)

lemma degraded_step_dsp:
  "severity s = ''critical'' \<Longrightarrow> severity (rule_dsp (normalize_dsp (PStr ''slow'')) s) = ''critical''"
  "likely_layer (rule_dsp (normalize_dsp (PStr ''slow'')) s) = ''PHY''"
  "probable_causes (rule_dsp (normalize_dsp (PStr ''slow'')) s) =
     probable_causes s @ [''DSP adaptation struggling (slow/degraded).'']"
  by (simp_all add: rule_dsp_def normalize_dsp_def lower_slow)

lemma branch_severity:
  "severity (rx_low s) = ''critical''"
  "severity s = ''critical'' \<Longrightarrow> severity (ber_slight s) = ''critical''"
  "severity s = ''critical'' \<Longrightarrow> severity (snr_marginal t s) = ''critical''"
  "severity s = ''critical'' \<Longrightarrow> severity (temp_high t s) = ''critical''"
  by (simp_all add: rx_low_def ber_slight_def snr_marginal_def temp_high_def)

lemma branch_causes:
  "probable_causes (rx_near t s) =
     probable_causes s @ [''Low received optical power ('' @ t @ '' dBm).'']"
  "probable_causes (rx_low s) =
     probable_causes s @ [''Received optical power beyond sensitivity threshold.'']"
  "probable_causes (ber_slight s) = probable_causes s @ [''Pre-FEC BER slightly elevated.'']"
  "probable_causes (snr_marginal t s) = probable_causes s @ [''SNR marginal ('' @ t @ '' dB).'']"
  "probable_causes (temp_high t s) =
     probable_causes s @ [''High ONU temperature ('' @ t @ [char_of (176::nat)] @ ''C).'']"
  by (simp_all add: rx_near_def rx_low_def ber_slight_def snr_marginal_def temp_high_def)




lemma degraded_rules:
  "\<exists>s. run_rules fmt (PFloat (Fin (- 29.5)))
          (PFloat (Fin (7673845534663173 / 147573952589676412928)))
          (PFloat (Fin (3462142213541069 / 281474976710656)))
          (PFloat (Fin (5502835794693325 / 70368744177664)))
          (PBool True) (PStr ''slow'') = Inr s \<and>
       severity s = ''critical'' \<and> likely_layer s = ''PHY'' \<and>
       probable_causes s =
         [''QoT degradation reported by ONU.'',
          ''Low received optical power ('' @ fmt (PFloat (Fin (- 29.5))) ''.2f'' @ '' dBm).'',
          ''Received optical power beyond sensitivity threshold.'',
          ''Pre-FEC BER slightly elevated.'',
          ''SNR marginal ('' @
             fmt (PFloat (Fin (3462142213541069 / 281474976710656))) ''.1f'' @ '' dB).'',
          ''High ONU temperature ('' @
             fmt (PFloat (Fin (5502835794693325 / 70368744177664))) [] @
             [char_of (176::nat)] @ ''C).'',
          ''DSP adaptation struggling (slow/degraded).'']"
proof -
  define s where "s =
    rule_dsp (normalize_dsp (PStr ''slow''))
      (temp_high (fmt (PFloat (Fin (5502835794693325 / 70368744177664))) [])
        (snr_marginal (fmt (PFloat (Fin (3462142213541069 / 281474976710656))) ''.1f'')
          (ber_slight
            (rx_low
              (rx_near (fmt (PFloat (Fin (- 29.5))) ''.2f'')
                (rule_qot_degrade (PBool True) initial_verdict))))))"
  have run: "run_rules fmt (PFloat (Fin (- 29.5)))
          (PFloat (Fin (7673845534663173 / 147573952589676412928)))
          (PFloat (Fin (3462142213541069 / 281474976710656)))
          (PFloat (Fin (5502835794693325 / 70368744177664)))
          (PBool True) (PStr ''slow'') = Inr s"
    unfolding run_rules_def degraded_step_rx degraded_step_ber degraded_step_snr
      degraded_step_temp ebind_Inr s_def ..
  have sev: "severity s = ''critical''"
    unfolding s_def by (simp add: degraded_step_dsp branch_severity)
  have lay: "likely_layer s = ''PHY''"
    unfolding s_def by (simp add: degraded_step_dsp)
  have c0: "probable_causes initial_verdict = []" by (simp add: initial_verdict_def)
  have cau: "probable_causes s =
         [''QoT degradation reported by ONU.'',
          ''Low received optical power ('' @ fmt (PFloat (Fin (- 29.5))) ''.2f'' @ '' dBm).'',
          ''Received optical power beyond sensitivity threshold.'',
          ''Pre-FEC BER slightly elevated.'',
          ''SNR marginal ('' @
             fmt (PFloat (Fin (3462142213541069 / 281474976710656))) ''.1f'' @ '' dB).'',
          ''High ONU temperature ('' @
             fmt (PFloat (Fin (5502835794693325 / 70368744177664))) [] @
             [char_of (176::nat)] @ ''C).'',
          ''DSP adaptation struggling (slow/degraded).'']"
    unfolding s_def by (simp add: degraded_step_dsp degraded_step_flag branch_causes c0)
  from run sev lay cau show ?thesis by blast
qed

lemma degraded_run:
  "\<exists>r. check_ieee_8023_compliance fmt degraded_event = Inr r \<and>
       severity r = ''critical'' \<and> likely_layer r = ''PHY'' \<and> is_abnormal r \<and>
       health r = ''major_issue'' \<and>
       probable_causes r =
         [''QoT degradation reported by ONU.'',
          ''Low received optical power ('' @ fmt (PFloat (Fin (- 29.5))) ''.2f'' @ '' dBm).'',
          ''Received optical power beyond sensitivity threshold.'',
          ''Pre-FEC BER slightly elevated.'',
          ''SNR marginal ('' @
             fmt (PFloat (Fin (3462142213541069 / 281474976710656))) ''.1f'' @ '' dB).'',
          ''High ONU temperature ('' @
             fmt (PFloat (Fin (5502835794693325 / 70368744177664))) [] @
             [char_of (176::nat)] @ ''C).'',
          ''DSP adaptation struggling (slow/degraded).'']"
proof -
  from degraded_rules[of fmt] obtain s where
    s: "run_rules fmt (PFloat (Fin (- 29.5)))
          (PFloat (Fin (7673845534663173 / 147573952589676412928)))
          (PFloat (Fin (3462142213541069 / 281474976710656)))
          (PFloat (Fin (5502835794693325 / 70368744177664)))
          (PBool True) (PStr ''slow'') = Inr s" and
    p: "severity s = ''critical''" "likely_layer s = ''PHY''" and
    c: "probable_causes s =
         [''QoT degradation reported by ONU.'',
          ''Low received optical power ('' @ fmt (PFloat (Fin (- 29.5))) ''.2f'' @ '' dBm).'',
          ''Received optical power beyond sensitivity threshold.'',
          ''Pre-FEC BER slightly elevated.'',
          ''SNR marginal ('' @
             fmt (PFloat (Fin (3462142213541069 / 281474976710656))) ''.1f'' @ '' dB).'',
          ''High ONU temperature ('' @
             fmt (PFloat (Fin (5502835794693325 / 70368744177664))) [] @
             [char_of (176::nat)] @ ''C).'',
          ''DSP adaptation struggling (slow/degraded).'']"
    by blast
  have "check_ieee_8023_compliance fmt degraded_event = Inr (finish degraded_event s)"
    using s by (simp add: check_sections degraded_fields)
  moreover have "probable_causes s \<noteq> []" using c by simp
  ultimately show ?thesis using p c by (simp add: finish_fields)
qed

text \<open>
  C8: for the event with rx power -29.5, SNR 12.3, pre-FEC BER 5.2e-5, temperature 78.2,
  the degrade flag set and DSP adaptation \<^verbatim>\<open>slow\<close>, the classifier returns severity
  \<^verbatim>\<open>critical\<close>, layer \<^verbatim>\<open>PHY\<close>, \<^verbatim>\<open>is_abnormal\<close> true, health \<^verbatim>\<open>major_issue\<close>, and at least five
  distinct causes (there are seven), whatever digits the formatter prints.
\<close>

theorem degraded_sample_classification:
  "\<exists>r. check_ieee_8023_compliance fmt degraded_event = Inr r \<and>
       severity r = ''critical'' \<and> likely_layer r = ''PHY'' \<and> is_abnormal r \<and>
       health r = ''major_issue'' \<and> distinct (probable_causes r) \<and>
       5 \<le> card (set (probable_causes r))"
proof -
  from degraded_run[of fmt] obtain r where
    r: "check_ieee_8023_compliance fmt degraded_event = Inr r"
       "severity r = ''critical''" "likely_layer r = ''PHY''" "is_abnormal r"
       "health r = ''major_issue''" and
    c: "probable_causes r =
         [''QoT degradation reported by ONU.'',
          ''Low received optical power ('' @ fmt (PFloat (Fin (- 29.5))) ''.2f'' @ '' dBm).'',
          ''Received optical power beyond sensitivity threshold.'',
          ''Pre-FEC BER slightly elevated.'',
          ''SNR marginal ('' @
             fmt (PFloat (Fin (3462142213541069 / 281474976710656))) ''.1f'' @ '' dB).'',
          ''High ONU temperature ('' @
             fmt (PFloat (Fin (5502835794693325 / 70368744177664))) [] @
             [char_of (176::nat)] @ ''C).'',
          ''DSP adaptation struggling (slow/degraded).'']"
    by blast
  have d: "distinct (probable_causes r)" unfolding c by simp
  have "length (probable_causes r) = 7" unfolding c by simp
  with d have "card (set (probable_causes r)) = 7" by (simp add: distinct_card)
  with r d show ?thesis by auto
qed

text \<open>The invariant of C10 on the degraded sample.\<close>

theorem layer_phy_iff_abnormal_witness:
  "\<exists>r. check_ieee_8023_compliance no_digits degraded_event = Inr r \<and>
       likely_layer r = ''PHY'' \<and> is_abnormal r"
proof -
  from degraded_run[of no_digits] obtain r where
    r: "check_ieee_8023_compliance no_digits degraded_event = Inr r" and
    l: "likely_layer r = ''PHY''"
    by blast
  from layer_phy_iff_abnormal[OF r] l have "is_abnormal r" by simp
  with r l show ?thesis by blast
qed




lemma overflow_le_digits: "float_overflow \<le> max_str_digits"
proof -
  have "(2::int) ^ 1024 \<le> 10 ^ 1024" by (rule power_mono) simp_all
  also have "(10::int) ^ 1024 \<le> 10 ^ 4300" by (rule power_increasing) simp_all
  finally have "(2::int) ^ 1024 \<le> 10 ^ 4300" .
  moreover have "(0::int) \<le> 2 ^ 970" by (rule zero_le_power) simp
  ultimately show ?thesis unfolding float_overflow_def max_str_digits_def by linarith
qed

lemma numeric_ok_cases:
  assumes "numeric_ok v"
  shows "v = PNone \<or> (\<exists>f. as_number v = Some f \<and> (\<forall>fmt spec. \<exists>t. format_value fmt v spec = Inr t))"
proof (cases v)
  case (PInt i)
  with assms have "\<bar>i\<bar> < float_overflow" by (simp add: numeric_ok_def)
  with overflow_le_digits have "\<bar>i\<bar> < max_str_digits" by linarith
  with \<open>\<bar>i\<bar> < float_overflow\<close> PInt show ?thesis by (simp add: format_value_def)
qed (use assms in \<open>simp_all add: numeric_ok_def format_value_def\<close>)

lemma rules_return:
  assumes "numeric_ok v"
  shows "\<exists>s'. rule_rx_power fmt v s = Inr s'"
    and "\<exists>s'. rule_ber fmt v s = Inr s'"
    and "\<exists>s'. rule_snr fmt v s = Inr s'"
    and "\<exists>s'. rule_temperature fmt v s = Inr s'"
proof -
  from numeric_ok_cases[OF assms] consider "v = PNone"
    | f where "as_number v = Some f" "\<And>spec. \<exists>t. format_value fmt v spec = Inr t" "v \<noteq> PNone"
    by blast
  then have "(\<exists>s'. rule_rx_power fmt v s = Inr s') \<and> (\<exists>s'. rule_ber fmt v s = Inr s') \<and>
             (\<exists>s'. rule_snr fmt v s = Inr s') \<and> (\<exists>s'. rule_temperature fmt v s = Inr s')"
  proof cases
    case 1
    then show ?thesis
      by (simp add: rule_rx_power_def rule_ber_def rule_snr_def rule_temperature_def)
  next
    case 2
    obtain t2f t2e t1f t0 where t:
      "format_value fmt v ''.2f'' = Inr t2f" "format_value fmt v ''.2e'' = Inr t2e"
      "format_value fmt v ''.1f'' = Inr t1f" "format_value fmt v [] = Inr t0"
      using 2(2) by meson
    show ?thesis
      using 2(1,3) t
      by (simp add: rule_rx_power_def rule_ber_def rule_snr_def rule_temperature_def
            py_lt_def py_gt_def)
  qed
  then show "\<exists>s'. rule_rx_power fmt v s = Inr s'" "\<exists>s'. rule_ber fmt v s = Inr s'"
    "\<exists>s'. rule_snr fmt v s = Inr s'" "\<exists>s'. rule_temperature fmt v s = Inr s'"
    by blast+
qed

lemma run_rules_returns:
  assumes "numeric_ok rx" "numeric_ok ber_pre" "numeric_ok snr" "numeric_ok temp"
  shows "\<exists>s. run_rules fmt rx ber_pre snr temp flag dsp_state = Inr s"
proof -
  obtain s2 where s2: "rule_rx_power fmt rx (rule_qot_degrade flag initial_verdict) = Inr s2"
    using rules_return(1)[OF assms(1)] by blast
  obtain s3 where s3: "rule_ber fmt ber_pre s2 = Inr s3"
    using rules_return(2)[OF assms(2)] by blast
  obtain s4 where s4: "rule_snr fmt snr s3 = Inr s4"
    using rules_return(3)[OF assms(3)] by blast
  obtain s5 where s5: "rule_temperature fmt temp s4 = Inr s5"
    using rules_return(4)[OF assms(4)] by blast
  show ?thesis by (simp add: run_rules_def s2 s3 s4 s5)
qed

text \<open>
  C1, as amended: for every event whose \<^verbatim>\<open>qot\<close> and \<^verbatim>\<open>status\<close> entries are missing, falsy or
  dicts, and whose four compared fields (\<^verbatim>\<open>rx_power_dBm\<close>, \<^verbatim>\<open>ber_pre_fec\<close>, \<^verbatim>\<open>snr_dB\<close>,
  \<^verbatim>\<open>temperature\<close>) are each null, a bool, a float or an int that converts to a float, the
  classifier returns a result without raising. The status fields may hold any type: a
  \<^verbatim>\<open>qot_degrade\<close> other than \<^verbatim>\<open>True\<close> and a \<^verbatim>\<open>dsp_adaptation\<close> that is not a string are treated
  as null.
\<close>

theorem well_typed_event_classified:
  assumes "well_typed event"
  shows "(\<exists>r. check_ieee_8023_compliance fmt event = Inr r) \<and>
         (\<forall>flag. flag \<noteq> PBool True \<longrightarrow> rule_qot_degrade flag = rule_qot_degrade PNone) \<and>
         (\<forall>dsp. (\<forall>t. dsp \<noteq> PStr t) \<longrightarrow> normalize_dsp dsp = normalize_dsp PNone)"
proof -
  from assms have ok: "section_ok event ''qot''" "section_ok event ''status''"
    and n: "numeric_ok (field event ''qot'' ''rx_power_dBm'')"
      "numeric_ok (field event ''qot'' ''ber_pre_fec'')"
      "numeric_ok (field event ''qot'' ''snr_dB'')"
      "numeric_ok (field event ''qot'' ''temperature'')"
    by (simp_all add: well_typed_def)
  from run_rules_returns[OF n] obtain s where
    "run_rules fmt (field event ''qot'' ''rx_power_dBm'') (field event ''qot'' ''ber_pre_fec'')
       (field event ''qot'' ''snr_dB'') (field event ''qot'' ''temperature'')
       (field event ''status'' ''qot_degrade'') (field event ''status'' ''dsp_adaptation'') = Inr s"
    by blast
  with ok have "\<exists>r. check_ieee_8023_compliance fmt event = Inr r"
    by (simp add: check_sections)
  moreover have "rule_qot_degrade flag = rule_qot_degrade PNone" if "flag \<noteq> PBool True" for flag
    using that by (intro ext) (simp add: rule_qot_degrade_def)
  moreover have "normalize_dsp dsp = normalize_dsp PNone" if "\<forall>t. dsp \<noteq> PStr t" for dsp
    using that by (cases dsp) (simp_all add: normalize_dsp_def)
  ultimately show ?thesis by blast
qed

lemma odd_status_well_typed: "well_typed odd_status_event"
  by (simp add: well_typed_def odd_status_event_def section_ok_def field_def get_section_def
        dict_get_def numeric_ok_def float_overflow_def)

text \<open>An event with a string for the flag and a number for the DSP state is classified.\<close>

theorem well_typed_event_classified_witness:
  "well_typed odd_status_event \<and>
   (\<exists>r. check_ieee_8023_compliance no_digits odd_status_event = Inr r) \<and>
   rule_qot_degrade (PStr ''yes'') = rule_qot_degrade PNone \<and>
   normalize_dsp (PInt 5) = normalize_dsp PNone"
proof -
  note t = well_typed_event_classified[OF odd_status_well_typed, of no_digits]
  from t have "\<exists>r. check_ieee_8023_compliance no_digits odd_status_event = Inr r" by blast
  moreover from t have "rule_qot_degrade (PStr ''yes'') = rule_qot_degrade PNone" by blast
  moreover from t have "normalize_dsp (PInt 5) = normalize_dsp PNone" by blast
  ultimately show ?thesis using odd_status_well_typed by blast
qed

text \<open>
  C1 as stated fails: with the string \<^verbatim>\<open>"low"\<close> as received power, the comparison
  \<^verbatim>\<open>rx < -26.5\<close> raises TypeError and no result is returned.
\<close>

theorem string_power_raises:
  "check_ieee_8023_compliance no_digits (rx_event (PStr ''low'')) = Inl TypeError"
  by (simp add: check_sections rx_event_def section_ok_def field_def get_section_def dict_get_def
        run_rules_def rule_rx_power_def py_lt_def)

lemma rank_le_2: "sev_rank v \<le> 2"
  by (simp add: sev_rank_def)

lemma escalate_rank: "sev_rank (severity s) \<le> sev_rank (severity (escalate_to_warning s))"
  by (simp add: escalate_to_warning_def sev_rank_def)

lemma branch_rank:
  "sev_rank (severity s) \<le> sev_rank (severity (rx_near t s))"
  "sev_rank (severity s) \<le> sev_rank (severity (rx_low s))"
  "sev_rank (severity s) \<le> sev_rank (severity (ber_extreme t s))"
  "sev_rank (severity s) \<le> sev_rank (severity (ber_above t s))"
  "sev_rank (severity s) \<le> sev_rank (severity (ber_slight s))"
  "sev_rank (severity s) \<le> sev_rank (severity (snr_critical t s))"
  "sev_rank (severity s) \<le> sev_rank (severity (snr_marginal t s))"
  "sev_rank (severity s) \<le> sev_rank (severity (temp_high t s))"
  using escalate_rank[of s] escalate_rank[of "layer_if_unknown s"]
    escalate_rank[of "s\<lparr>likely_layer := ''PHY''\<rparr>"] rank_le_2[of "severity s"]
  by (simp_all add: rx_near_def rx_low_def ber_extreme_def ber_above_def ber_slight_def
        snr_critical_def snr_marginal_def temp_high_def sev_rank_def)

lemma step_rank:
  "sev_rank (severity s) \<le> sev_rank (severity (rule_qot_degrade q s))"
  "rule_rx_power fmt v s = Inr s' \<Longrightarrow> sev_rank (severity s) \<le> sev_rank (severity s')"
  "rule_ber fmt v s = Inr s' \<Longrightarrow> sev_rank (severity s) \<le> sev_rank (severity s')"
  "rule_snr fmt v s = Inr s' \<Longrightarrow> sev_rank (severity s) \<le> sev_rank (severity s')"
  "rule_temperature fmt v s = Inr s' \<Longrightarrow> sev_rank (severity s) \<le> sev_rank (severity s')"
  "sev_rank (severity s) \<le> sev_rank (severity (rule_dsp d s))"
proof -
  show "sev_rank (severity s) \<le> sev_rank (severity (rule_qot_degrade q s))"
    using rank_le_2[of "severity s"] by (simp add: rule_qot_degrade_def sev_rank_def)
  show "sev_rank (severity s) \<le> sev_rank (severity (rule_dsp d s))"
    using escalate_rank[of "s\<lparr>likely_layer := ''PHY''\<rparr>"] by (simp add: rule_dsp_def)
  show "rule_rx_power fmt v s = Inr s' \<Longrightarrow> sev_rank (severity s) \<le> sev_rank (severity s')"
    using branch_rank(1)[of s] branch_rank(2)[of s] branch_rank(2)[of "rx_near t s" for t]
    by (auto dest!: rule_rx_power_shape intro: order_trans[OF branch_rank(1) branch_rank(2)]
          branch_rank)
  show "rule_ber fmt v s = Inr s' \<Longrightarrow> sev_rank (severity s) \<le> sev_rank (severity s')"
    by (auto dest!: rule_ber_shape intro: branch_rank)
  show "rule_snr fmt v s = Inr s' \<Longrightarrow> sev_rank (severity s) \<le> sev_rank (severity s')"
    by (auto dest!: rule_snr_shape intro: branch_rank)
  show "rule_temperature fmt v s = Inr s' \<Longrightarrow> sev_rank (severity s) \<le> sev_rank (severity s')"
    by (auto dest!: rule_temperature_shape intro: branch_rank)
qed

lemma float_lt_le: "float_le x y \<Longrightarrow> float_lt y c \<Longrightarrow> float_lt x c"
  by (cases x; cases y) auto

lemma float_gt_le: "float_le x y \<Longrightarrow> float_gt x c \<Longrightarrow> float_gt y c"
  by (cases x; cases y) auto

lemma below_num_le: "num_le new old \<Longrightarrow> below old c \<Longrightarrow> below new c"
  by (auto simp: num_le_def below_def split: option.splits intro: float_lt_le)

lemma above_num_le: "num_le old new \<Longrightarrow> above old c \<Longrightarrow> above new c"
  by (auto simp: num_le_def above_def split: option.splits intro: float_gt_le)

lemma none_levels [simp]: "\<not> below PNone c" "\<not> above PNone c"
  by (simp_all add: below_def above_def)

lemma worse_levels:
  "worse_flag old new \<Longrightarrow> degrade_level old \<le> degrade_level new"
  "worse_low old new \<Longrightarrow> rx_level old \<le> rx_level new"
  "worse_high old new \<Longrightarrow> ber_level old \<le> ber_level new"
  "worse_low old new \<Longrightarrow> snr_level old \<le> snr_level new"
  "worse_high old new \<Longrightarrow> temp_level old \<le> temp_level new"
  "worse_dsp old new \<Longrightarrow> dsp_level old \<le> dsp_level new"
proof -
  show "worse_flag old new \<Longrightarrow> degrade_level old \<le> degrade_level new"
    by (auto simp: worse_flag_def degrade_level_def)
  show "worse_dsp old new \<Longrightarrow> dsp_level old \<le> dsp_level new"
    by (auto simp: worse_dsp_def dsp_level_def)
  show "worse_low old new \<Longrightarrow> rx_level old \<le> rx_level new"
    using below_num_le[of new old] by (auto simp: worse_low_def rx_level_def)
  show "worse_low old new \<Longrightarrow> snr_level old \<le> snr_level new"
    using below_num_le[of new old] by (auto simp: worse_low_def snr_level_def)
  show "worse_high old new \<Longrightarrow> ber_level old \<le> ber_level new"
    using above_num_le[of old new] by (auto simp: worse_high_def ber_level_def)
  show "worse_high old new \<Longrightarrow> temp_level old \<le> temp_level new"
    using above_num_le[of old new] by (auto simp: worse_high_def temp_level_def)
qed

lemma check_level:
  assumes "check_ieee_8023_compliance fmt event = Inr r"
  shows "sev_rank (severity r) =
           Max {degrade_level (field event ''status'' ''qot_degrade''),
                rx_level (field event ''qot'' ''rx_power_dBm''),
                ber_level (field event ''qot'' ''ber_pre_fec''),
                snr_level (field event ''qot'' ''snr_dB''),
                temp_level (field event ''qot'' ''temperature''),
                dsp_level (field event ''status'' ''dsp_adaptation'')}"
proof -
  from assms obtain s where
    s: "run_rules fmt (field event ''qot'' ''rx_power_dBm'')
          (field event ''qot'' ''ber_pre_fec'') (field event ''qot'' ''snr_dB'')
          (field event ''qot'' ''temperature'') (field event ''status'' ''qot_degrade'')
          (field event ''status'' ''dsp_adaptation'') = Inr s" and
    r: "r = finish event s"
    by (auto simp: check_sections ebind_eq_Inr split: if_splits)
  from run_rules_level[OF s] show ?thesis unfolding r by (simp add: finish_fields)
qed

lemma worsened_rank:
  assumes "check_ieee_8023_compliance fmt e = Inr r"
    and "check_ieee_8023_compliance fmt' e' = Inr r'"
    and "worsened e e'"
  shows "sev_rank (severity r) \<le> sev_rank (severity r')"
proof -
  note w = assms(3)[unfolded worsened_def]
  have l: "degrade_level (field e ''status'' ''qot_degrade'') \<le>
             degrade_level (field e' ''status'' ''qot_degrade'')"
    "rx_level (field e ''qot'' ''rx_power_dBm'') \<le> rx_level (field e' ''qot'' ''rx_power_dBm'')"
    "ber_level (field e ''qot'' ''ber_pre_fec'') \<le> ber_level (field e' ''qot'' ''ber_pre_fec'')"
    "snr_level (field e ''qot'' ''snr_dB'') \<le> snr_level (field e' ''qot'' ''snr_dB'')"
    "temp_level (field e ''qot'' ''temperature'') \<le> temp_level (field e' ''qot'' ''temperature'')"
    "dsp_level (field e ''status'' ''dsp_adaptation'') \<le>
       dsp_level (field e' ''status'' ''dsp_adaptation'')"
    using w by (simp_all add: worse_levels)
  show ?thesis
    unfolding check_level[OF assms(1)] check_level[OF assms(2)]
    using l by simp linarith
qed


lemma rx_event_fields:
  "section_ok (rx_event v) ''qot''" "section_ok (rx_event v) ''status''"
  "field (rx_event v) ''qot'' ''rx_power_dBm'' = v"
  "field (rx_event v) ''qot'' ''ber_pre_fec'' = PNone"
  "field (rx_event v) ''qot'' ''snr_dB'' = PNone"
  "field (rx_event v) ''qot'' ''temperature'' = PNone"
  "field (rx_event v) ''status'' ''qot_degrade'' = PNone"
  "field (rx_event v) ''status'' ''dsp_adaptation'' = PNone"
  by (simp_all add: rx_event_def section_ok_def field_def get_section_def dict_get_def)

lemma rx_event_check:
  "check_ieee_8023_compliance fmt (rx_event v) =
     ebind (rule_rx_power fmt v initial_verdict) (\<lambda>s. Inr (finish (rx_event v) s))"
proof -
  have "run_rules fmt v PNone PNone PNone PNone PNone = rule_rx_power fmt v initial_verdict"
    by (cases "rule_rx_power fmt v initial_verdict")
       (simp_all add: run_rules_def rule_qot_degrade_def rule_ber_def rule_snr_def
          rule_temperature_def rule_dsp_def normalize_dsp_def)
  then show ?thesis by (simp add: check_sections rx_event_fields)
qed

lemma rx_event_samples:
  "\<exists>r. check_ieee_8023_compliance fmt (rx_event (PFloat (Fin (- 25)))) = Inr r \<and>
       severity r = ''info''"
  "\<exists>r. check_ieee_8023_compliance fmt (rx_event (PFloat (Fin (- 27)))) = Inr r \<and>
       severity r = ''warning''"
proof -
  have "rule_rx_power fmt (PFloat (Fin (- 25))) initial_verdict = Inr initial_verdict"
    by (simp add: rule_rx_power_def py_lt_def)
  then show "\<exists>r. check_ieee_8023_compliance fmt (rx_event (PFloat (Fin (- 25)))) = Inr r \<and>
       severity r = ''info''"
    by (simp add: rx_event_check finish_fields initial_verdict_def)
  have "rule_rx_power fmt (PFloat (Fin (- 27))) initial_verdict =
          Inr (rx_near (fmt (PFloat (Fin (- 27))) ''.2f'') initial_verdict)"
    by (simp add: rule_rx_power_def py_lt_def format_value_def)
  moreover have "severity (rx_near t initial_verdict) = ''warning''" for t
    by (simp add: rx_near_def escalate_to_warning_def initial_verdict_def)
  ultimately show "\<exists>r. check_ieee_8023_compliance fmt (rx_event (PFloat (Fin (- 27)))) = Inr r \<and>
       severity r = ''warning''"
    by (simp add: rx_event_check finish_fields)
qed

lemma rx_event_worsened: "worsened (rx_event (PFloat (Fin (- 25)))) (rx_event (PFloat (Fin (- 27))))"
  by (simp add: worsened_def rx_event_fields worse_flag_def worse_low_def worse_high_def
        worse_dsp_def num_le_def)

text \<open>
  C3: severity never decreases under the order info < warning < critical. No rule lowers
  the severity it is given (rule 7 leaves it as it is), and when one event is obtained
  from another by changing fields to worsening values, the classification of the worsened
  event is at least as severe.
\<close>

theorem severity_monotone:
  "(\<forall>q s. sev_rank (severity s) \<le> sev_rank (severity (rule_qot_degrade q s))) \<and>
   (\<forall>fmt v s s'. rule_rx_power fmt v s = Inr s' \<longrightarrow>
      sev_rank (severity s) \<le> sev_rank (severity s')) \<and>
   (\<forall>fmt v s s'. rule_ber fmt v s = Inr s' \<longrightarrow>
      sev_rank (severity s) \<le> sev_rank (severity s')) \<and>
   (\<forall>fmt v s s'. rule_snr fmt v s = Inr s' \<longrightarrow>
      sev_rank (severity s) \<le> sev_rank (severity s')) \<and>
   (\<forall>fmt v s s'. rule_temperature fmt v s = Inr s' \<longrightarrow>
      sev_rank (severity s) \<le> sev_rank (severity s')) \<and>
   (\<forall>d s. sev_rank (severity s) \<le> sev_rank (severity (rule_dsp d s))) \<and>
   (\<forall>event s. severity (finish event s) = severity s) \<and>
   (\<forall>fmt e e' r r'.
      check_ieee_8023_compliance fmt e = Inr r \<longrightarrow>
      check_ieee_8023_compliance fmt e' = Inr r' \<longrightarrow>
      worsened e e' \<longrightarrow> sev_rank (severity r) \<le> sev_rank (severity r'))"
  by (intro conjI allI impI) (auto intro: step_rank worsened_rank simp: finish_fields(2))

text \<open>Received power -25 dBm against -27 dBm: info against warning.\<close>

theorem severity_monotone_witness:
  "worsened (rx_event (PFloat (Fin (- 25)))) (rx_event (PFloat (Fin (- 27)))) \<and>
   (\<exists>r r'. check_ieee_8023_compliance no_digits (rx_event (PFloat (Fin (- 25)))) = Inr r \<and>
      check_ieee_8023_compliance no_digits (rx_event (PFloat (Fin (- 27)))) = Inr r' \<and>
      severity r = ''info'' \<and> severity r' = ''warning'' \<and>
      sev_rank (severity r) \<le> sev_rank (severity r'))"
proof -
  from rx_event_samples(1)[of no_digits] obtain r where
    r: "check_ieee_8023_compliance no_digits (rx_event (PFloat (Fin (- 25)))) = Inr r"
       "severity r = ''info''" by blast
  from rx_event_samples(2)[of no_digits] obtain r' where
    r': "check_ieee_8023_compliance no_digits (rx_event (PFloat (Fin (- 27)))) = Inr r'"
       "severity r' = ''warning''" by blast
  from severity_monotone r(1) r'(1) rx_event_worsened
  have "sev_rank (severity r) \<le> sev_rank (severity r')" by blast
  with r r' rx_event_worsened show ?thesis by blast
qed


section \<open>Properties of the parser\<close>

lemma group_event_keys:
  "distinct (map fst g) \<Longrightarrow> distinct (map fst (group_event g e))"
  by (auto simp: group_event_def Let_def distinct_update map_of_eq_None_iff split: option.splits)

lemma group_event_lookup:
  "map_of (group_event g e) k =
     (if k = py_str (onu_id e)
      then Some ((case map_of g k of None \<Rightarrow> [] | Some es \<Rightarrow> es) @ [e])
      else map_of g k)"
  by (auto simp: group_event_def Let_def update_conv' map_add_def split: option.splits)

lemma foldl_group_keys:
  "distinct (map fst g) \<Longrightarrow> distinct (map fst (foldl group_event g es))"
  by (induction es arbitrary: g) (simp_all add: group_event_keys)

lemma foldl_group_lookup:
  "map_of (foldl group_event g es) k =
     (let mine = filter (\<lambda>e. py_str (onu_id e) = k) es
      in case map_of g k of
           None \<Rightarrow> if mine = [] then None else Some mine
         | Some old \<Rightarrow> Some (old @ mine))"
proof (induction es arbitrary: g)
  case Nil
  show ?case by (simp split: option.splits)
next
  case (Cons e es)
  show ?case
    by (simp add: Cons.IH group_event_lookup Let_def split: option.splits)
qed

lemma group_events_keys: "distinct (map fst (group_events es))"
  by (simp add: group_events_def foldl_group_keys)

lemma group_events_lookup:
  "map_of (group_events es) k =
     (let mine = filter (\<lambda>e. py_str (onu_id e) = k) es
      in if mine = [] then None else Some mine)"
  by (simp add: group_events_def foldl_group_lookup)

lemma slice_last_5: "slice_from (- 5) xs = drop (length xs - 5) xs"
  by (simp add: slice_from_def)

lemma keep_last_5_mem:
  "(k, evs) \<in> set (keep_last_5 g) \<longleftrightarrow> (\<exists>es. (k, es) \<in> set g \<and> evs = drop (length es - 5) es)"
  by (force simp: keep_last_5_def slice_last_5)

lemma keep_last_5_keys: "map fst (keep_last_5 g) = map fst g"
  by (simp add: keep_last_5_def case_prod_unfold)

lemma parse_blocks_kept:
  "parse_blocks fromstring pyfloat blocks = Inr evs \<Longrightarrow> e \<in> set evs \<Longrightarrow>
   \<exists>i. onu_id e = Some i \<and> i \<noteq> []"
proof (induction blocks arbitrary: evs)
  case Nil
  then show ?case by simp
next
  case (Cons b bs)
  show ?case
  proof (cases "contains ''<notification'' b \<and>
                 find_sub ''<notification'' (b @ ''</notification>'') \<noteq> None")
    case False
    with Cons.prems have "parse_blocks fromstring pyfloat bs = Inr evs"
      by (auto simp: Let_def split: option.splits if_splits)
    with Cons.IH Cons.prems(2) show ?thesis by blast
  next
    case True
    then obtain i where i: "find_sub ''<notification'' (b @ ''</notification>'') = Some i"
      by blast
    with True Cons.prems(1) obtain ev rest where
      r: "parse_blocks fromstring pyfloat bs = Inr rest" and
      evs: "evs = (if keeps ev then the ev # rest else rest)"
      by (auto simp: Let_def ebind_eq_Inr)
    show ?thesis
    proof (cases "e \<in> set rest")
      case True
      with Cons.IH r show ?thesis by blast
    next
      case False
      with evs Cons.prems(2) have "keeps ev" "e = the ev" by (auto split: if_splits)
      then show ?thesis by (auto simp: keeps_def split: option.splits)
    qed
  qed
qed

text \<open>
  C4: whenever \<^verbatim>\<open>parse_telemetry_log\<close> returns, every key of the mapping has at most five
  events, and they are the last (up to five) of the events kept for that ONU by the first
  loop, in their order in the input. The keys are distinct.
\<close>

theorem history_last_five:
  assumes "parse_telemetry_log fromstring pyfloat raw_log = Inr result"
    and "(oid, events) \<in> set result"
  shows "length events \<le> 5 \<and> distinct (map fst result) \<and>
         (\<exists>parsed_events mine.
            parsed_events_of fromstring pyfloat raw_log = Inr parsed_events \<and>
            mine = filter (\<lambda>e. onu_id e = Some oid) parsed_events \<and> mine \<noteq> [] \<and>
            events = drop (length mine - 5) mine)"
proof -
  from assms(1) obtain pe where
    pe: "parsed_events_of fromstring pyfloat raw_log = Inr pe" and
    res: "result = keep_last_5 (group_events pe)"
    by (auto simp: parse_telemetry_log_def ebind_eq_Inr)
  have d: "distinct (map fst result)"
    unfolding res by (simp add: keep_last_5_keys group_events_keys)
  from assms(2) obtain es where
    es: "(oid, es) \<in> set (group_events pe)" and ev: "events = drop (length es - 5) es"
    unfolding res keep_last_5_mem by blast
  from es have "map_of (group_events pe) oid = Some es"
    using group_events_keys by simp
  then have mine: "es = filter (\<lambda>e. py_str (onu_id e) = oid) pe" "es \<noteq> []"
    by (auto simp: group_events_lookup Let_def split: if_splits)
  have "filter (\<lambda>e. py_str (onu_id e) = oid) pe = filter (\<lambda>e. onu_id e = Some oid) pe"
  proof (rule filter_cong[OF refl])
    fix e assume "e \<in> set pe"
    with pe obtain i where "onu_id e = Some i"
      using parse_blocks_kept unfolding parsed_events_of_def by blast
    then show "(py_str (onu_id e) = oid) = (onu_id e = Some oid)"
      by (simp add: py_str_def)
  qed
  with mine have "es = filter (\<lambda>e. onu_id e = Some oid) pe" by simp
  with pe ev mine(2) d show ?thesis by simp
qed


lemma sample_log_parse:
  "parse_telemetry_log sample_fromstring sample_float sample_log =
     Inr [(''1'', [sample_event ''1'' ''b'', sample_event ''1'' ''c'', sample_event ''1'' ''d'',
                  sample_event ''1'' ''e'', sample_event ''1'' ''f'']),
          (''2'', [sample_event ''2'' ''x''])]"
  by code_simp

text \<open>
  Six records of ONU 1, one of ONU 2 and a malformed one: the first of ONU 1 is dropped.
\<close>

theorem history_last_five_witness:
  "\<exists>result events.
     parse_telemetry_log sample_fromstring sample_float sample_log = Inr result \<and>
     (''1'', events) \<in> set result \<and>
     events = [sample_event ''1'' ''b'', sample_event ''1'' ''c'', sample_event ''1'' ''d'',
               sample_event ''1'' ''e'', sample_event ''1'' ''f''] \<and>
     length events \<le> 5"
  using history_last_five[OF sample_log_parse,
      of "''1''" "[sample_event ''1'' ''b'', sample_event ''1'' ''c'', sample_event ''1'' ''d'',
                  sample_event ''1'' ''e'', sample_event ''1'' ''f'']"]
    sample_log_parse
  by simp

text \<open>
  C2 fails on the code: \<^verbatim>\<open>_parse_single_record\<close> only catches \<^verbatim>\<open>ET.ParseError\<close>, so the
  ValueError of \<^verbatim>\<open>float("abc")\<close> leaves it and \<^verbatim>\<open>parse_telemetry_log\<close>: one record with an
  unparseable \<^verbatim>\<open>rx-power\<close> between two good ones makes the whole call raise.
\<close>

theorem unparseable_number_aborts_batch:
  "parse_telemetry_log sample_fromstring sample_float bad_number_log = Inl ValueError"
  by code_simp

lemma timestamp_needs_children:
  assumes "parse_single_record fromstring pyfloat raw_record = Inr (Some ev)"
    and "fromstring raw_record = Some parsed"
  shows "timestamp ev =
           (case find_elem (strip_namespaces parsed) ''eventTime'' of
              None \<Rightarrow> None
            | Some el \<Rightarrow> if elem_children el = [] then None else elem_text el)"
proof -
  let ?t = "find_elem (strip_namespaces parsed) ''eventTime''"
  from assms have "timestamp ev = (if elem_truthy ?t then text_of ?t else None)"
    by (auto simp: parse_single_record_def Let_def ebind_eq_Inr)
  then show ?thesis
    by (cases ?t) (simp_all add: elem_truthy_def text_of_def)
qed


text \<open>
  C7 fails on the code: the test \<^verbatim>\<open>if event_time_elem:\<close> is the truth value of the element,
  which is false for an element without children, so the text of an ordinary
  \<^verbatim>\<open>eventTime\<close> is never copied and the timestamp stays null although the element is present.
\<close>

theorem event_time_dropped:
  "parse_single_record sample_fromstring sample_float timed_record = Inr (Some timed_event) \<and>
   timestamp timed_event = None \<and>
   find_elem (strip_namespaces timed_tree) ''eventTime'' =
     Some (Element ''eventTime'' (Some ''2025-11-24T10:00:00Z'') [])"
  by code_simp


section \<open>Properties of the record store\<close>

lemma filter_records_filter:
  "filter_records fromstring onu rs = filter (record_matches fromstring onu) rs"
  by (induction rs) simp_all

lemma record_matches_parsed: "record_matches fromstring onu r \<Longrightarrow> fromstring r \<noteq> None"
  by (cases "fromstring r") (simp_all add: record_matches_def)

lemma set_slice_from: "set (slice_from i xs) \<subseteq> set xs"
  by (auto simp: slice_from_def dest: in_set_dropD)

lemma set_guarded_slice: "set (if xs \<noteq> [] then slice_from i xs else []) \<subseteq> set xs"
proof (cases "xs = []")
  case True
  then show ?thesis by simp
next
  case False
  then show ?thesis by (simp add: set_slice_from)
qed

lemma filter_parsed_first:
  "filter (record_matches fromstring onu) (filter (\<lambda>r. fromstring r \<noteq> None) rs) =
   filter (record_matches fromstring onu) rs"
  by (induction rs) (auto dest: record_matches_parsed)

text \<open>
  C9: in a filtered read (\<^verbatim>\<open>onu_id\<close> a non-empty string) the records that fail to parse are
  skipped: the result is what the same read returns on the store without them, so they
  are neither returned nor counted toward the limit, and the call returns a list (the
  \<^verbatim>\<open>ParseError\<close> is caught for each record).
\<close>

theorem filtered_read_skips_malformed:
  assumes "onu \<noteq> []"
  shows "get_latest_netconf_records fromstring (Some content) count (Some onu) =
           (let good = filter (\<lambda>r. fromstring r \<noteq> None) (read_records content);
                filtered = filter_records fromstring onu good
            in if filtered \<noteq> [] then slice_from (- count) filtered else []) \<and>
         (\<forall>r \<in> set (get_latest_netconf_records fromstring (Some content) count (Some onu)).
            fromstring r \<noteq> None \<and> r \<in> set (read_records content))"
proof -
  define f where "f = filter (record_matches fromstring onu) (read_records content)"
  have g: "get_latest_netconf_records fromstring (Some content) count (Some onu) =
             (if f \<noteq> [] then slice_from (- count) f else [])"
    using assms unfolding f_def
    by (simp add: get_latest_netconf_records_def Let_def filter_records_filter)
  have f': "filter_records fromstring onu
              (filter (\<lambda>r. fromstring r \<noteq> None) (read_records content)) = f"
    unfolding f_def filter_records_filter by (rule filter_parsed_first)
  have m: "fromstring r \<noteq> None \<and> r \<in> set (read_records content)" if "r \<in> set f" for r
    using that record_matches_parsed[of fromstring onu r] unfolding f_def by simp
  have sub: "set (if f \<noteq> [] then slice_from (- count) f else []) \<subseteq> set f"
    by (rule set_guarded_slice)
  have "get_latest_netconf_records fromstring (Some content) count (Some onu) =
           (let good = filter (\<lambda>r. fromstring r \<noteq> None) (read_records content);
                filtered = filter_records fromstring onu good
            in if filtered \<noteq> [] then slice_from (- count) filtered else [])"
    unfolding Let_def f' g ..
  moreover have "\<forall>r \<in> set (get_latest_netconf_records fromstring (Some content) count (Some onu)).
            fromstring r \<noteq> None \<and> r \<in> set (read_records content)"
    unfolding g using sub m by blast
  ultimately show ?thesis by (rule conjI)
qed

lemma store_sample_read:
  "get_latest_netconf_records store_fromstring (Some store_content) 2 (Some ''1'') =
     [store_record ''1'', store_record ''1'']"
  by code_simp

lemma store_sample_records:
  "read_records store_content =
     [store_record ''2'', store_record ''1'', store_broken, store_record ''1'']"
  "store_fromstring store_broken = None"
  by code_simp+



text \<open>A store with a malformed record between two records of ONU 1, read with limit 2.\<close>

theorem filtered_read_skips_malformed_witness:
  "''1'' \<noteq> [] \<and> store_broken \<in> set (read_records store_content) \<and>
   store_fromstring store_broken = None \<and>
   get_latest_netconf_records store_fromstring (Some store_content) 2 (Some ''1'') =
     [store_record ''1'', store_record ''1''] \<and>
   store_fromstring (store_record ''1'') \<noteq> None"
proof -
  have n: "''1'' \<noteq> []" by simp
  have b: "store_broken \<in> set (read_records store_content)"
    unfolding store_sample_records(1) by simp
  from filtered_read_skips_malformed[OF n, of store_fromstring store_content 2]
  have "\<forall>r \<in> set (get_latest_netconf_records store_fromstring (Some store_content) 2 (Some ''1'')).
      store_fromstring r \<noteq> None" by blast
  then have "store_fromstring (store_record ''1'') \<noteq> None"
    unfolding store_sample_read by simp
  with n b store_sample_records(2) store_sample_read show ?thesis by blast
qed

section \<open>Properties of the cache worker\<close>

lemma has_new_data_unchanged:
  "last_processed_record_hash w = Some (compute_data_hash md5 records) \<Longrightarrow>
   has_new_data md5 records w = (False, w)"
  by (simp add: has_new_data_def)

lemma has_new_data_changed:
  "last_processed_record_hash w \<noteq> Some (compute_data_hash md5 records) \<Longrightarrow>
   has_new_data md5 records w =
     (True, w\<lparr>last_processed_record_hash := Some (compute_data_hash md5 records)\<rparr>)"
  by (cases "last_processed_record_hash w") (auto simp: has_new_data_def)

lemma save_cache_fields:
  "last_processed_record_hash (after (save_cache_to_file strftime env d w)) =
     last_processed_record_hash w"
  "parse_calls (after (save_cache_to_file strftime env d w)) = parse_calls w"
  by (simp_all add: save_cache_to_file_def after_def Let_def split: option.splits)

lemma update_cache_unchanged:
  assumes "fetched env = Inr records" "records \<noteq> []"
    and "last_processed_record_hash w = Some (compute_data_hash md5 records)"
  shows "update_cache md5 strftime env w = Inr w"
  using assms by (simp add: update_cache_def has_new_data_unchanged)

lemma update_cache_changed:
  assumes "fetched env = Inr records" "records \<noteq> []"
    and "last_processed_record_hash w \<noteq> Some (compute_data_hash md5 records)"
  shows "update_cache md5 strftime env w =
     (let w2 = w\<lparr>last_processed_record_hash := Some (compute_data_hash md5 records),
                  parse_calls := parse_calls w + 1\<rparr>
      in case agent_result env of
           None \<Rightarrow> Inr w2
         | Some parsed_data \<Rightarrow>
             if parsed_data \<noteq> [] then save_cache_to_file strftime env parsed_data w2
             else Inr w2)"
  using assms by (simp add: update_cache_def has_new_data_changed Let_def split: option.splits)

lemma update_cache_after:
  assumes "fetched env = Inr records" "records \<noteq> []"
  shows "last_processed_record_hash (after (update_cache md5 strftime env w)) =
           Some (compute_data_hash md5 records)"
    and "parse_calls (after (update_cache md5 strftime env w)) =
           parse_calls w +
           (if last_processed_record_hash w = Some (compute_data_hash md5 records) then 0 else 1)"
proof -
  have "last_processed_record_hash (after (update_cache md5 strftime env w)) =
           Some (compute_data_hash md5 records) \<and>
        parse_calls (after (update_cache md5 strftime env w)) =
           parse_calls w +
           (if last_processed_record_hash w = Some (compute_data_hash md5 records) then 0 else 1)"
  proof (cases "last_processed_record_hash w = Some (compute_data_hash md5 records)")
    case True
    with assms show ?thesis by (simp add: update_cache_unchanged after_def)
  next
    case False
    show ?thesis
      unfolding update_cache_changed[OF assms False] Let_def
      using False
      by (cases "agent_result env") (simp_all add: after_def save_cache_fields[unfolded after_def])
  qed
  then show "last_processed_record_hash (after (update_cache md5 strftime env w)) =
           Some (compute_data_hash md5 records)"
    and "parse_calls (after (update_cache md5 strftime env w)) =
           parse_calls w +
           (if last_processed_record_hash w = Some (compute_data_hash md5 records) then 0 else 1)"
    by simp_all
qed

text \<open>
  C6: a cycle whose fetched batch has the stored fingerprint leaves the whole state as it
  is: no call of the parser, no write, data and timestamp untouched. After any cycle on
  a non-empty batch, a second cycle that fetches the same batch is such a cycle; the two
  together call the parser once when the batch was new to the first, and not at all when
  it already had the stored fingerprint.
\<close>

theorem unchanged_fingerprint_skips_cycle:
  assumes "fetched env = Inr records" and "records \<noteq> []"
  shows "(last_processed_record_hash w = Some (compute_data_hash md5 records) \<longrightarrow>
            update_cache md5 strftime env w = Inr w) \<and>
         (\<forall>env2. fetched env2 = Inr records \<longrightarrow>
            update_cache md5 strftime env2 (after (update_cache md5 strftime env w)) =
              Inr (after (update_cache md5 strftime env w)) \<and>
            parse_calls (after (update_cache md5 strftime env w)) =
              parse_calls w +
              (if last_processed_record_hash w = Some (compute_data_hash md5 records)
               then 0 else 1))"
proof (intro conjI allI impI)
  assume "last_processed_record_hash w = Some (compute_data_hash md5 records)"
  with assms show "update_cache md5 strftime env w = Inr w"
    by (rule update_cache_unchanged)
next
  fix env2 :: "'a cycle_env"
  assume "fetched env2 = Inr records"
  then show "update_cache md5 strftime env2 (after (update_cache md5 strftime env w)) =
               Inr (after (update_cache md5 strftime env w))"
    using assms(2) update_cache_after(1)[OF assms] by (rule update_cache_unchanged)
next
  show "parse_calls (after (update_cache md5 strftime env w)) =
          parse_calls w +
          (if last_processed_record_hash w = Some (compute_data_hash md5 records) then 0 else 1)"
    by (rule update_cache_after(2)[OF assms])
qed

text \<open>
  C5 fails on the code: \<^verbatim>\<open>has_new_data\<close> stores the new fingerprint before the parse runs,
  so a cycle whose parse yields nothing leaves data and timestamp as they were but has
  already replaced the fingerprint.
\<close>

theorem failed_parse_moves_fingerprint:
  assumes "fetched env = Inr records" and "records \<noteq> []" and "agent_result env = None"
    and "last_processed_record_hash w \<noteq> Some (compute_data_hash md5 records)"
  shows "update_cache md5 strftime env w =
           Inr (w\<lparr>last_processed_record_hash := Some (compute_data_hash md5 records),
                  parse_calls := parse_calls w + 1\<rparr>)"
  using assms(3) unfolding update_cache_changed[OF assms(1,2,4)] by simp


lemma sample_cycle_facts:
  "fetched good_cycle = Inr [''r1'', ''r2'']" "fetched failing_cycle = Inr [''r1'', ''r2'']"
  "agent_result failing_cycle = None"
  "compute_data_hash stand_in_md5 [''r1'', ''r2''] = ''r1r2''"
  "last_processed_record_hash warm_worker = Some ''old''"
  "parse_calls warm_worker = 0"
  by (simp_all add: good_cycle_def failing_cycle_def compute_data_hash_def stand_in_md5_def
        warm_worker_def)

text \<open>Two cycles on the same new batch: one parse, and the second changes nothing.\<close>

theorem unchanged_fingerprint_skips_cycle_witness:
  "fetched good_cycle = Inr [''r1'', ''r2''] \<and> [''r1'', ''r2''] \<noteq> ([] :: string list) \<and>
   update_cache stand_in_md5 stand_in_strftime good_cycle
     (after (update_cache stand_in_md5 stand_in_strftime good_cycle warm_worker)) =
     Inr (after (update_cache stand_in_md5 stand_in_strftime good_cycle warm_worker)) \<and>
   parse_calls (after (update_cache stand_in_md5 stand_in_strftime good_cycle warm_worker)) = 1"
proof -
  have r: "[''r1'', ''r2''] \<noteq> ([] :: string list)" by simp
  note t = unchanged_fingerprint_skips_cycle[OF sample_cycle_facts(1) r,
      of warm_worker stand_in_md5 stand_in_strftime]
  from t sample_cycle_facts(1) have
    "update_cache stand_in_md5 stand_in_strftime good_cycle
       (after (update_cache stand_in_md5 stand_in_strftime good_cycle warm_worker)) =
       Inr (after (update_cache stand_in_md5 stand_in_strftime good_cycle warm_worker))"
    by blast
  moreover from t sample_cycle_facts(1) have
    "parse_calls (after (update_cache stand_in_md5 stand_in_strftime good_cycle warm_worker)) =
       parse_calls warm_worker +
       (if last_processed_record_hash warm_worker =
           Some (compute_data_hash stand_in_md5 [''r1'', ''r2'']) then 0 else 1)"
    by blast
  then have
    "parse_calls (after (update_cache stand_in_md5 stand_in_strftime good_cycle warm_worker)) = 1"
    by (simp add: sample_cycle_facts)
  ultimately show ?thesis using sample_cycle_facts(1) r by blast
qed

text \<open>A failed parse on a worker that holds a snapshot: only fingerprint and counter move.\<close>

theorem failed_parse_moves_fingerprint_witness:
  "last_processed_record_hash warm_worker = Some ''old'' \<and>
   update_cache stand_in_md5 stand_in_strftime failing_cycle warm_worker =
     Inr (warm_worker\<lparr>last_processed_record_hash := Some ''r1r2'', parse_calls := 1\<rparr>)"
proof -
  have r: "[''r1'', ''r2''] \<noteq> ([] :: string list)" by simp
  have h: "last_processed_record_hash warm_worker \<noteq>
             Some (compute_data_hash stand_in_md5 [''r1'', ''r2''])"
    by (simp add: sample_cycle_facts)
  from failed_parse_moves_fingerprint[OF sample_cycle_facts(2) r sample_cycle_facts(3) h,
      of stand_in_strftime]
  show ?thesis by (simp add: sample_cycle_facts)
qed


end
